theory Spec2Isabelle
  imports Main "HOL-Library.Multiset" "HOL-Library.Product_Lexorder"
begin

section \<open>Python values and exceptions\<close>

text \<open>
  The functions of \<^verbatim>\<open>support.py\<close> read tables of the load research database and
  reshape them with pandas. A table is a list of rows, a row is a record of the columns
  the code touches (the field names are the column names, behind a prefix naming the table).
  A cell that can be missing (NULL in the database, NaN or None in pandas) is an option.
  Every exception the code can raise is a value of \<open>error\<close>.
\<close>

datatype error = AttributeError | ValueError | IndexError | UnboundLocalError | TypeError

text \<open>A Python value used as a year argument or a profile identifier: a number or a string.\<close>

datatype pyval = PyInt int | PyStr string

definition digit_char :: "nat \<Rightarrow> char" where
  "digit_char n = ''0123456789'' ! n"

fun str_nat :: "nat \<Rightarrow> string" where
  "str_nat n = (if n < 10 then [digit_char n] else str_nat (n div 10) @ [digit_char (n mod 10)])"

declare str_nat.simps [simp del]

definition str_int :: "int \<Rightarrow> string" where
  "str_int i = (if i < 0 then CHR ''-'' # str_nat (nat (- i)) else str_nat (nat i))"

text \<open>Python's \<^verbatim>\<open>str(x)\<close>: the decimal numeral of a number, a string unchanged.\<close>

fun py_str :: "pyval \<Rightarrow> string" where
  "py_str (PyInt i) = str_int i"
| "py_str (PyStr s) = s"

text \<open>
  \<^verbatim>\<open>str.strip()\<close> removes the white space at both ends. Of the characters below 256
  Python counts as white space the codes 9 to 13, 28 to 32, 133 and 160.
\<close>

definition is_space :: "char \<Rightarrow> bool" where
  "is_space c = (let n = (of_char c :: nat) in
     (9 \<le> n \<and> n \<le> 13) \<or> (28 \<le> n \<and> n \<le> 32) \<or> n = 133 \<or> n = 160)"

definition strip :: "string \<Rightarrow> string" where
  "strip s = rev (dropWhile is_space (rev (dropWhile is_space s)))"

section \<open>The Groups table and its flattening (getGroups)\<close>

text \<open>A row of the Groups table as \<^verbatim>\<open>getData('Groups')\<close> returns it.\<close>

record group_raw =
  raw_GroupID :: int
  raw_ParentID :: "int option"
  raw_GroupName :: "string option"
  raw_ContextID :: "int option"

text \<open>
  The same row after the first three statements of \<^verbatim>\<open>getGroups\<close>: a missing
  ParentID is 0 (\<^verbatim>\<open>fillna(0)\<close>), the column is cast to int64, and the name is stripped.
\<close>

record group_row =
  grp_GroupID :: int
  grp_ParentID :: int
  grp_GroupName :: string
  grp_ContextID :: "int option"

definition fillna0 :: "int option \<Rightarrow> int" where
  "fillna0 p = (case p of None \<Rightarrow> 0 | Some v \<Rightarrow> v)"

text \<open>
  A column of integers with a missing value is read as float64: every number becomes the
  nearest double, the even one of two nearest. \<open>float64_int\<close> is the value of that double.
\<close>

function bit_length :: "int \<Rightarrow> nat" where
  "bit_length n = (if n \<le> 0 then 0 else Suc (bit_length (n div 2)))"
  by pat_completeness auto
termination
  by (relation "measure nat") auto

declare bit_length.simps [simp del]

definition float64_mag :: "int \<Rightarrow> int" where
  "float64_mag n =
     (if n \<le> 2 ^ 53 then n
      else (let e = bit_length n - 53; q = n div 2 ^ e; r = n mod 2 ^ e; half = 2 ^ (e - 1)
            in if half < r \<or> (r = half \<and> odd q) then (q + 1) * 2 ^ e else q * 2 ^ e))"

definition float64_int :: "int \<Rightarrow> int" where
  "float64_int i = (if i < 0 then - float64_mag (- i) else float64_mag i)"

text \<open>
  \<^verbatim>\<open>astype('int64')\<close> of a float: the number itself when it is an int64; the cast of
  a double beyond that range gives the least int64.
\<close>

definition astype_int64 :: "int \<Rightarrow> int" where
  "astype_int64 v = (if - (2 ^ 63) \<le> v \<and> v < 2 ^ 63 then v else - (2 ^ 63))"

definition has_null :: "group_raw list \<Rightarrow> bool" where
  "has_null tbl = list_ex (\<lambda>r. raw_ParentID r = None) tbl"

text \<open>
  The ParentID of a row after \<^verbatim>\<open>fillna(0)\<close> and \<^verbatim>\<open>astype('int64')\<close>, for a column
  read as float64 (\<open>as_float\<close>) and for a column read as int64.
\<close>

definition read_ParentID :: "bool \<Rightarrow> int option \<Rightarrow> int" where
  "read_ParentID as_float p =
     (if as_float then astype_int64 (fillna0 (map_option float64_int p)) else fillna0 p)"

text \<open>
  \<^verbatim>\<open>groups['GroupName'].map(lambda x: x.strip())\<close> raises AttributeError at a name
  that is not a string.
\<close>

fun normalise_rows :: "bool \<Rightarrow> group_raw list \<Rightarrow> error + group_row list" where
  "normalise_rows as_float [] = Inr []"
| "normalise_rows as_float (r # rs) =
     (case raw_GroupName r of
        None \<Rightarrow> Inl AttributeError
      | Some n \<Rightarrow>
         (case normalise_rows as_float rs of
            Inl e \<Rightarrow> Inl e
          | Inr gs \<Rightarrow> Inr (\<lparr>grp_GroupID = raw_GroupID r,
                           grp_ParentID = read_ParentID as_float (raw_ParentID r),
                           grp_GroupName = strip n, grp_ContextID = raw_ContextID r\<rparr> # gs)))"

definition normalise :: "group_raw list \<Rightarrow> error + group_row list" where
  "normalise tbl = normalise_rows (has_null tbl) tbl"

text \<open>\<^verbatim>\<open>groups[groups['ParentID'].isin(level['GroupID'])]\<close>.\<close>

definition children_of :: "group_row list \<Rightarrow> group_row list \<Rightarrow> group_row list" where
  "children_of level groups = filter (\<lambda>g. grp_ParentID g \<in> set (map grp_GroupID level)) groups"

definition groups_level_1 :: "group_row list \<Rightarrow> group_row list" where
  "groups_level_1 groups = filter (\<lambda>g. grp_ParentID g = 0) groups"

definition groups_level_2 :: "group_row list \<Rightarrow> group_row list" where
  "groups_level_2 groups = children_of (groups_level_1 groups) groups"

definition groups_level_3 :: "group_row list \<Rightarrow> group_row list" where
  "groups_level_3 groups = children_of (groups_level_2 groups) groups"

definition groups_level_4 :: "group_row list \<Rightarrow> group_row list" where
  "groups_level_4 groups = children_of (groups_level_3 groups) groups"

text \<open>
  \<^verbatim>\<open>pd.merge(left, right, left_on=..., right_on=..., how='left')\<close>: every left row,
  in the left order, once with each right row of the same key (in the right order), and
  once with missing right columns when no right row has its key. A missing left key
  matches no right row (the right key column has no missing value).
\<close>

definition merge_left ::
  "'a list \<Rightarrow> 'b list \<Rightarrow> ('a \<Rightarrow> int option) \<Rightarrow> ('b \<Rightarrow> int) \<Rightarrow> ('a \<times> 'b option) list" where
  "merge_left left right left_on right_on =
     concat (map (\<lambda>x. case filter (\<lambda>y. Some (right_on y) = left_on x) right of
                         [] \<Rightarrow> [(x, None)]
                       | ms \<Rightarrow> map (\<lambda>y. (x, Some y)) ms) left)"

text \<open>A row of the flattened table, under the names of \<^verbatim>\<open>prettynames\<close>.\<close>

record flat_row =
  flat_ContextID :: "int option"
  flat_GroupID_1 :: "int option"
  flat_GroupID_2 :: "int option"
  flat_GroupID_3 :: "int option"
  flat_GroupID :: int
  flat_Dom_NonDom :: "string option"
  flat_Survey :: "string option"
  flat_Year :: "string option"
  flat_Location :: string

definition recon3 :: "group_row list \<Rightarrow> (group_row \<times> group_row option) list" where
  "recon3 groups =
     merge_left (groups_level_4 groups) (groups_level_3 groups)
       (\<lambda>x. Some (grp_ParentID x)) grp_GroupID"

definition recon2 ::
  "group_row list \<Rightarrow> ((group_row \<times> group_row option) \<times> group_row option) list" where
  "recon2 groups =
     merge_left (recon3 groups) (groups_level_2 groups)
       (\<lambda>x. map_option grp_ParentID (snd x)) grp_GroupID"

definition recon1 ::
  "group_row list \<Rightarrow>
     (((group_row \<times> group_row option) \<times> group_row option) \<times> group_row option) list" where
  "recon1 groups =
     merge_left (recon2 groups) (groups_level_1 groups)
       (\<lambda>x. map_option grp_ParentID (snd x)) grp_GroupID"

fun prettyg ::
  "((group_row \<times> group_row option) \<times> group_row option) \<times> group_row option \<Rightarrow> flat_row" where
  "prettyg (((g4, g3), g2), g1) =
     \<lparr>flat_ContextID = grp_ContextID g4,
      flat_GroupID_1 = map_option grp_GroupID g1,
      flat_GroupID_2 = map_option grp_GroupID g2,
      flat_GroupID_3 = map_option grp_GroupID g3,
      flat_GroupID = grp_GroupID g4,
      flat_Dom_NonDom = map_option grp_GroupName g1,
      flat_Survey = map_option grp_GroupName g2,
      flat_Year = map_option grp_GroupName g3,
      flat_Location = grp_GroupName g4\<rparr>"

text \<open>
  \<^verbatim>\<open>set_index([...]).sort_index()\<close> orders the rows by the three ancestor
  identifiers, a missing identifier after every number, rows of equal keys in their order.
\<close>

definition nan_last :: "int option \<Rightarrow> bool \<times> int" where
  "nan_last v = (case v of None \<Rightarrow> (True, 0) | Some i \<Rightarrow> (False, i))"

definition index_key :: "flat_row \<Rightarrow> (bool \<times> int) \<times> (bool \<times> int) \<times> (bool \<times> int)" where
  "index_key r =
     (nan_last (flat_GroupID_1 r), nan_last (flat_GroupID_2 r), nan_last (flat_GroupID_3 r))"

definition allgroups :: "group_row list \<Rightarrow> flat_row list" where
  "allgroups groups = sort_key index_key (map prettyg (recon1 groups))"

definition getGroups :: "pyval option \<Rightarrow> group_raw list \<Rightarrow> error + flat_row list" where
  "getGroups year tbl =
     (case normalise tbl of
        Inl e \<Rightarrow> Inl e
      | Inr groups \<Rightarrow>
         (case year of
            None \<Rightarrow> Inr (allgroups groups)
          | Some y \<Rightarrow> Inr (filter (\<lambda>r. flat_Year r = Some (py_str y)) (allgroups groups))))"

text \<open>
  The hypothesis of the flattening: 0 is the root marker and no group's identifier, and the
  ParentID of every group that is not a root is the GroupID of exactly one row.
\<close>

definition valid_tree :: "group_raw list \<Rightarrow> bool" where
  "valid_tree tbl =
     ((\<forall>g\<in>set tbl. raw_GroupID g \<noteq> 0) \<and>
      (\<forall>g\<in>set tbl. fillna0 (raw_ParentID g) \<noteq> 0 \<longrightarrow>
         length (filter (\<lambda>p. raw_GroupID p = fillna0 (raw_ParentID g)) tbl) = 1))"

text \<open>What the joins need of the normalised table: no ParentID names two rows.\<close>

definition resolves_once :: "group_row list \<Rightarrow> bool" where
  "resolves_once groups =
     (\<forall>g\<in>set groups. length (filter (\<lambda>p. grp_GroupID p = grp_ParentID g) groups) \<le> 1)"

text \<open>The ancestors a flattened row names: the chain of parents of its location group.\<close>

definition chain_row :: "group_row list \<Rightarrow> flat_row \<Rightarrow> bool" where
  "chain_row groups r =
     (\<exists>g4 g3 g2 g1.
        g4 \<in> set (groups_level_4 groups) \<and> g3 \<in> set (groups_level_3 groups) \<and>
        g2 \<in> set (groups_level_2 groups) \<and> g1 \<in> set (groups_level_1 groups) \<and>
        grp_ParentID g4 = grp_GroupID g3 \<and> grp_ParentID g3 = grp_GroupID g2 \<and>
        grp_ParentID g2 = grp_GroupID g1 \<and>
        r = prettyg (((g4, Some g3), Some g2), Some g1))"

text \<open>
  The level of a group as the data model has it, read off the table itself: a root (no
  parent, or the parent 0) is at level 1, a group whose ParentID is the GroupID of a group
  at level \<open>n\<close> is at level \<open>n + 1\<close>. The location groups are those at level 4.
\<close>

fun at_level :: "group_raw list \<Rightarrow> nat \<Rightarrow> group_raw \<Rightarrow> bool" where
  "at_level tbl 0 g = False"
| "at_level tbl (Suc 0) g = (fillna0 (raw_ParentID g) = 0)"
| "at_level tbl (Suc (Suc n)) g =
     list_ex (\<lambda>p. raw_GroupID p = fillna0 (raw_ParentID g) \<and> at_level tbl (Suc n) p) tbl"

definition location_groups :: "group_raw list \<Rightarrow> group_raw list" where
  "location_groups tbl = filter (at_level tbl 4) tbl"

text \<open>Every ParentID is a number a double holds exactly.\<close>

definition float_exact :: "group_raw list \<Rightarrow> bool" where
  "float_exact tbl = list_all (\<lambda>g. \<bar>fillna0 (raw_ParentID g)\<bar> \<le> 2 ^ 53) tbl"

text \<open>Every group has a name.\<close>

definition named :: "group_raw list \<Rightarrow> bool" where
  "named tbl = list_all (\<lambda>g. raw_GroupName g \<noteq> None) tbl"

text \<open>A row with its exact ParentID and its stripped name.\<close>

definition normal_row :: "group_raw \<Rightarrow> group_row" where
  "normal_row g =
     \<lparr>grp_GroupID = raw_GroupID g, grp_ParentID = fillna0 (raw_ParentID g),
      grp_GroupName = (case raw_GroupName g of None \<Rightarrow> [] | Some n \<Rightarrow> strip n),
      grp_ContextID = raw_ContextID g\<rparr>"

section \<open>The database\<close>

record link_row =
  lnk_ProfileID :: int
  lnk_AnswerID :: int
  lnk_GroupID :: int

text \<open>A row of the table \<^verbatim>\<open>profiles\<close>; the unit of measurement is a code of the units table.\<close>

record profiles_row =
  prof_Active :: int
  prof_ProfileId :: int
  prof_RecorderID :: string
  prof_UoM :: "int option"

record puom_row =
  puom_UnitsID :: int
  puom_Description :: string

record measurement =
  meas_ProfileID :: int
  meas_Datefield :: string
  meas_Unitsread :: int
  meas_Valid :: string

record answers_row =
  ans_AnswerID :: int
  ans_QuestionaireID :: int

text \<open>
  A cell of an answer table, a row of it (the key and the other cells by column name), and
  the table: its columns other than AnswerID, in order, and its rows. Only the cells of the
  columns of the table are part of it.
\<close>

datatype cell = NaN | PyNone | Text string | Number int

record answer_row =
  arow_AnswerID :: int
  arow_cells :: "string \<Rightarrow> cell"

record answer_table =
  tab_columns :: "string list"
  tab_rows :: "answer_row list"

text \<open>
  What \<^verbatim>\<open>getData\<close> can read: the named tables, and for a query text the rows the
  server answers, \<open>None\<close> when \<^verbatim>\<open>pd.read_sql\<close> raises (the server rejects the
  query, the connection times out).
\<close>

record database =
  db_LinkTable :: "link_row list"
  db_Groups :: "group_raw list"
  db_profiles :: "profiles_row list"
  db_ProfileUnitsOfMeasure :: "puom_row list"
  db_read_sql :: "string \<Rightarrow> measurement list option"
  db_Answers :: "answers_row list"
  db_Answers_blob :: answer_table
  db_Answers_char :: answer_table

section \<open>Identifier resolver (getProfileID, getAnswerID)\<close>

text \<open>\<^verbatim>\<open>Series.unique()\<close>: the values in the order of their first appearance.\<close>

fun unique :: "'a list \<Rightarrow> 'a list" where
  "unique [] = []"
| "unique (x # xs) = x # unique (filter (\<lambda>y. y \<noteq> x) xs)"

text \<open>
  \<^verbatim>\<open>getProfileID\<close> returns the filtered link rows themselves when no year is given,
  and a series of distinct profile identifiers for a year.
\<close>

datatype profile_ids = LinkRows "link_row list" | Ids "int list"

definition allprofiles :: "database \<Rightarrow> link_row list" where
  "allprofiles db = filter (\<lambda>l. lnk_GroupID l \<noteq> 0 \<and> lnk_ProfileID l \<noteq> 0) (db_LinkTable db)"

definition getProfileID :: "pyval option \<Rightarrow> database \<Rightarrow> error + profile_ids" where
  "getProfileID year db =
     (case year of
        None \<Rightarrow> Inr (LinkRows (allprofiles db))
      | Some y \<Rightarrow>
         (case getGroups (Some y) (db_Groups db) of
            Inl e \<Rightarrow> Inl e
          | Inr gs \<Rightarrow>
             Inr (Ids (unique (map lnk_ProfileID
                    (filter (\<lambda>l. lnk_GroupID l \<in> set (map flat_GroupID gs)) (allprofiles db)))))))"

definition getAnswerID :: "database \<Rightarrow> link_row list" where
  "getAnswerID db = filter (\<lambda>l. lnk_GroupID l \<noteq> 0 \<and> lnk_AnswerID l \<noteq> 0) (db_LinkTable db)"

text \<open>The identifiers a result of \<^verbatim>\<open>getProfileID\<close> carries.\<close>

fun profile_id_set :: "profile_ids \<Rightarrow> int set" where
  "profile_id_set (LinkRows rows) = set (map lnk_ProfileID rows)"
| "profile_id_set (Ids ids) = set ids"

section \<open>Metadata filter (getMetaProfiles)\<close>

record meta_row =
  mp_Active :: int
  mp_ProfileId :: int
  mp_RecorderID :: string
  mp_UoM :: "string option"

text \<open>
  \<^verbatim>\<open>map(str, getProfileID(year))\<close>: the decimal strings of the identifiers; iterating
  over the data frame of the case without a year gives its column names.
\<close>

definition LinkTable_columns :: "string list" where
  "LinkTable_columns = [''ProfileID'', ''AnswerID'', ''GroupID'']"

fun pids_of :: "profile_ids \<Rightarrow> string list" where
  "pids_of (LinkRows rows) = LinkTable_columns"
| "pids_of (Ids ids) = map str_int ids"

text \<open>
  \<^verbatim>\<open>pd.Categorical\<close> of the unit column: its categories are the distinct codes present,
  ascending. \<^verbatim>\<open>cats\<close> are the descriptions of the rows of the units table whose code is
  a category, in the order of that table; assigning them to \<^verbatim>\<open>.cat.categories\<close>
  renames the categories by position, and raises ValueError unless there are as many new
  names as categories and the new names are pairwise different. The assignment
  \<^verbatim>\<open>metaprofiles.loc[:, [...]] = ....apply(pd.Categorical)\<close> before it makes the unit
  column categorical only when the year selects two profile rows or more: for one row or
  none the values are set in place, the column keeps its type, and \<^verbatim>\<open>.cat\<close> raises
  AttributeError.
\<close>

definition uom_categories :: "profiles_row list \<Rightarrow> int list" where
  "uom_categories rows = sort (remdups (List.map_filter prof_UoM rows))"

definition metaprofiles :: "pyval option \<Rightarrow> database \<Rightarrow> error + meta_row list" where
  "metaprofiles year db =
     (case getProfileID year db of
        Inl e \<Rightarrow> Inl e
      | Inr r \<Rightarrow>
         (let pids = pids_of r;
              sel = filter (\<lambda>m. str_int (prof_ProfileId m) \<in> set pids) (db_profiles db);
              categories = uom_categories sel;
              cats = map puom_Description
                       (filter (\<lambda>p. puom_UnitsID p \<in> set categories) (db_ProfileUnitsOfMeasure db))
          in if length sel < 2 then Inl AttributeError
             else if length cats = length categories \<and> distinct cats
             then Inr (map (\<lambda>m. \<lparr>mp_Active = prof_Active m, mp_ProfileId = prof_ProfileId m,
                                  mp_RecorderID = prof_RecorderID m,
                                  mp_UoM = (case prof_UoM m of
                                              None \<Rightarrow> None
                                            | Some c \<Rightarrow> map_of (zip categories cats) c)\<rparr>) sel)
             else Inl ValueError))"

text \<open>
  A call ends in one of three ways: an exception, a message printed with \<^verbatim>\<open>None\<close>
  returned (\<^verbatim>\<open>return print(...)\<close>), or a value.
\<close>

datatype 'a outcome = Raised error | Printed string | Returned 'a

definition check_spelling :: string where
  "check_spelling =
     ''Check spelling and choose V, A, kVA, Hz or kW as units, or leave blank to get profiles of all.''"

definition getMetaProfiles ::
  "pyval option \<Rightarrow> string option \<Rightarrow> database \<Rightarrow> (meta_row list \<times> int list) outcome" where
  "getMetaProfiles year units db =
     (case metaprofiles year db of
        Inl e \<Rightarrow> Raised e
      | Inr mp \<Rightarrow>
         (case units of
            None \<Rightarrow> Returned (mp, map mp_ProfileId mp)
          | Some u \<Rightarrow>
             if u \<in> set [''V'', ''A'', ''kVA'', ''kW''] then
               Returned (mp, map mp_ProfileId
                               (filter (\<lambda>m. mp_UoM m = Some (strip u @ '' avg'')) mp))
             else if u = ''Hz'' then
               Returned (mp, map mp_ProfileId (filter (\<lambda>m. mp_UoM m = Some ''Hz'') mp))
             else Printed check_spelling))"

section \<open>Batch assembler (getProfiles)\<close>

text \<open>A row of the joined table: the measurement columns and the metadata columns.\<close>

record profile_row =
  pr_ProfileID :: int
  pr_Datefield :: string
  pr_Unitsread :: int
  pr_Valid :: string
  pr_Active :: int
  pr_RecorderID :: string
  pr_UoM :: "string option"

text \<open>\<^verbatim>\<open>', '.join(...)\<close>.\<close>

fun join :: "string \<Rightarrow> string list \<Rightarrow> string" where
  "join sep [] = []"
| "join sep [x] = x"
| "join sep (x # y # xs) = x @ sep @ join sep (y # xs)"

text \<open>
  The text of the query of month \<open>i\<close>. The backslash at the end of a line of the
  source's literal continues the literal, the indentation of the next line is part of it.
\<close>

definition month_query :: "string \<Rightarrow> nat \<Rightarrow> string" where
  "month_query subquery i =
     ''SELECT pt.ProfileID              ''
     @ '',pt.Datefield              ''
     @ '',pt.Unitsread              ''
     @ '',pt.Valid             ''
     @ ''FROM [General_LR4].[dbo].[Profiletable] pt             ''
     @ ''WHERE pt.ProfileID IN ''
     @ subquery
     @ '' AND MONTH(Datefield) =''
     @ str_nat i
     @ ''            ORDER BY pt.Datefield, pt.ProfileID''"

text \<open>
  \<^verbatim>\<open>pd.merge(profiles, mp, left_on='ProfileID', right_on='ProfileId')\<close> followed by
  \<^verbatim>\<open>drop('ProfileId')\<close>: the inner join. It puts the rows of one profile together,
  the profiles in the order of their first measurement row; within a profile the
  measurement rows are in their order, each with the metadata rows of the profile in theirs.
\<close>

definition joined_row :: "measurement \<Rightarrow> meta_row \<Rightarrow> profile_row" where
  "joined_row p m =
     \<lparr>pr_ProfileID = meas_ProfileID p, pr_Datefield = meas_Datefield p,
      pr_Unitsread = meas_Unitsread p, pr_Valid = meas_Valid p,
      pr_Active = mp_Active m, pr_RecorderID = mp_RecorderID m, pr_UoM = mp_UoM m\<rparr>"

definition merge_profiles :: "measurement list \<Rightarrow> meta_row list \<Rightarrow> profile_row list" where
  "merge_profiles profiles mp =
     concat (map (\<lambda>k. concat (map (\<lambda>p. map (joined_row p) (filter (\<lambda>m. mp_ProfileId m = k) mp))
                                  (filter (\<lambda>p. meas_ProfileID p = k) profiles)))
                 (unique (map meas_ProfileID profiles)))"

text \<open>
  One pass of the loop body. \<open>df\<close> is the variable of that name, \<open>None\<close> while it is
  unbound: a month whose fetch raises leaves it as it is (\<^verbatim>\<open>except: pass\<close>), any
  other month assigns it the joined rows of that month.
\<close>

definition month_step ::
  "database \<Rightarrow> meta_row list \<Rightarrow> string \<Rightarrow> profile_row list option \<Rightarrow> nat \<Rightarrow> profile_row list option"
  where
  "month_step db mp subquery df i =
     (case db_read_sql db (month_query subquery i) of
        None \<Rightarrow> df
      | Some profiles \<Rightarrow> Some (merge_profiles profiles mp))"

text \<open>
  \<^verbatim>\<open>getProfiles(year, month, units)\<close>. The loop runs over \<^verbatim>\<open>range(1,12)\<close>;
  \<^verbatim>\<open>return df\<close> raises UnboundLocalError when no pass assigned \<open>df\<close>.
\<close>

definition getProfiles ::
  "pyval option \<Rightarrow> nat option \<Rightarrow> string option \<Rightarrow> database \<Rightarrow> error + profile_row list" where
  "getProfiles year month units db =
     (case getMetaProfiles year None db of
        Raised e \<Rightarrow> Inl e
      | Printed msg \<Rightarrow> Inl TypeError
      | Returned (mp, plist) \<Rightarrow>
         (let subquery = join '', '' (map str_int plist)
          in case foldl (month_step db mp subquery) None [1..<12] of
               None \<Rightarrow> Inl UnboundLocalError
             | Some df \<Rightarrow> Inr df))"

section \<open>Persistence and the anonymisation pass (saveTables, anonAns)\<close>

text \<open>
  The directory \<^verbatim>\<open>data/tables\<close>: the tables written, by file name. \<^verbatim>\<open>fillna(np.nan)\<close>
  turns every \<^verbatim>\<open>None\<close> into NaN before the write.
\<close>

type_synonym tables_dir = "string \<rightharpoonup> answer_table"

fun fillna_nan :: "cell \<Rightarrow> cell" where
  "fillna_nan PyNone = NaN"
| "fillna_nan c = c"

definition fillna_row :: "answer_row \<Rightarrow> answer_row" where
  "fillna_row r = r\<lparr>arow_cells := (\<lambda>col. fillna_nan (arow_cells r col))\<rparr>"

definition fillna_table :: "answer_table \<Rightarrow> answer_table" where
  "fillna_table a = a\<lparr>tab_rows := map fillna_row (tab_rows a)\<rparr>"

definition saveTables :: "string list \<Rightarrow> answer_table list \<Rightarrow> tables_dir \<Rightarrow> tables_dir" where
  "saveTables names dataframes dir =
     foldl (\<lambda>d (k, df). d(k @ ''.feather'' \<mapsto> fillna_table df)) dir (zip names dataframes)"

record rule_row =
  rule_QuestionaireID :: int
  rule_ColumnNo :: int
  rule_anonymise :: int

text \<open>
  \<^verbatim>\<open>pd.merge(getData('Answers'), qs, ...)[['AnswerID','ColumnNo','anonymise']]\<close>, where
  \<open>qs\<close> holds the rules with \<^verbatim>\<open>anonymise == 1\<close>: the inner join on QuestionaireID,
  the rows of one questionnaire together, the questionnaires in the order of their first
  answer.
\<close>

definition qanon :: "answers_row list \<Rightarrow> rule_row list \<Rightarrow> (int \<times> int \<times> int) list" where
  "qanon answers rules =
     (let qs = filter (\<lambda>q. rule_anonymise q = 1) rules
      in concat (map (\<lambda>k. concat (map (\<lambda>an. map (\<lambda>q. (ans_AnswerID an, rule_ColumnNo q,
                                                        rule_anonymise q))
                                                (filter (\<lambda>q. rule_QuestionaireID q = k) qs))
                                     (filter (\<lambda>an. ans_QuestionaireID an = k) answers)))
                     (unique (map ans_QuestionaireID answers))))"

definition sentinel :: cell where
  "sentinel = Text ''a''"

text \<open>
  \<^verbatim>\<open>a[a.AnswerID == id].index[0]\<close>: the position of the first row with that AnswerID;
  \<^verbatim>\<open>index[0]\<close> raises IndexError when no row has it.
\<close>

fun first_index :: "int \<Rightarrow> answer_row list \<Rightarrow> nat option" where
  "first_index aid [] = None"
| "first_index aid (r # rs) =
     (if arow_AnswerID r = aid then Some 0 else map_option Suc (first_index aid rs))"

text \<open>
  A column is numeric (int64 or float64) when each of its cells is a number or NaN; the
  columns that hold a text or a \<^verbatim>\<open>None\<close> are of type object.
\<close>

fun numeric_cell :: "cell \<Rightarrow> bool" where
  "numeric_cell NaN = True"
| "numeric_cell (Number n) = True"
| "numeric_cell c = False"

definition numeric_column :: "string \<Rightarrow> answer_row list \<Rightarrow> bool" where
  "numeric_column col rows = list_all (\<lambda>r. numeric_cell (arow_cells r col)) rows"

definition put_cell :: "string \<Rightarrow> cell \<Rightarrow> answer_row \<Rightarrow> answer_row" where
  "put_cell col v r = r\<lparr>arow_cells := (arow_cells r)(col := v)\<rparr>"

text \<open>
  \<^verbatim>\<open>a.set_value(i, col, 'a')\<close> at the row of position \<open>i\<close>. In a column of type object
  the cell becomes the sentinel; in a numeric column the string cannot be stored and
  ValueError is raised; for a column the table does not have, the column is added, NaN in
  the other rows.
\<close>

definition set_value :: "nat \<Rightarrow> string \<Rightarrow> answer_table \<Rightarrow> error + answer_table" where
  "set_value i col a =
     (if col \<in> set (tab_columns a) then
        (if numeric_column col (tab_rows a) then Inl ValueError
         else Inr (a\<lparr>tab_rows := (tab_rows a)[i := put_cell col sentinel (tab_rows a ! i)]\<rparr>))
      else
        Inr \<lparr>tab_columns = tab_columns a @ [col],
             tab_rows = (map (put_cell col NaN) (tab_rows a))
                          [i := put_cell col sentinel (tab_rows a ! i)]\<rparr>)"

text \<open>The loop over the rows of \<open>qanon\<close>; the first exception ends it.\<close>

fun anonymise_rows :: "(int \<times> int \<times> int) list \<Rightarrow> answer_table \<Rightarrow> error + answer_table" where
  "anonymise_rows [] a = Inr a"
| "anonymise_rows ((aid, colno, flag) # rest) a =
     (case first_index aid (tab_rows a) of
        None \<Rightarrow> Inl IndexError
      | Some i \<Rightarrow>
         (case set_value i (str_int colno) a of
            Inl e \<Rightarrow> Inl e
          | Inr a' \<Rightarrow> anonymise_rows rest a'))"

text \<open>\<^verbatim>\<open>str.lower()\<close> on the characters below 256.\<close>

definition lower_char :: "char \<Rightarrow> char" where
  "lower_char c = (let n = (of_char c :: nat) in
     if (65 \<le> n \<and> n \<le> 90) \<or> (192 \<le> n \<and> n \<le> 214) \<or> (216 \<le> n \<and> n \<le> 222)
     then char_of (n + 32) else c)"

definition lower :: "string \<Rightarrow> string" where
  "lower s = map lower_char s"

definition anstables :: "(string \<times> string) list" where
  "anstables = [(''Answers_blob'', ''blobQs.csv''), (''Answers_char'', ''charQs.csv'')]"

text \<open>\<^verbatim>\<open>getData(k)\<close> for the two answer tables.\<close>

definition answer_table :: "database \<Rightarrow> string \<Rightarrow> answer_table" where
  "answer_table db k = (if k = ''Answers_blob'' then db_Answers_blob db else db_Answers_char db)"

text \<open>
  \<^verbatim>\<open>anonAns\<close>, over the rule files \<open>csv\<close> (by file name) and the directory of saved
  tables: the exception that ended it, if any, and the directory afterwards.
\<close>

fun anon_tables ::
  "database \<Rightarrow> (string \<Rightarrow> rule_row list) \<Rightarrow> (string \<times> string) list \<Rightarrow> tables_dir
     \<Rightarrow> error option \<times> tables_dir" where
  "anon_tables db csv [] dir = (None, dir)"
| "anon_tables db csv ((k, v) # rest) dir =
     (case anonymise_rows (qanon (db_Answers db) (csv v)) (answer_table db k) of
        Inl e \<Rightarrow> (Some e, dir)
      | Inr a \<Rightarrow> anon_tables db csv rest (saveTables [lower k @ ''_anon''] [a] dir))"

definition anonAns ::
  "database \<Rightarrow> (string \<Rightarrow> rule_row list) \<Rightarrow> tables_dir \<Rightarrow> error option \<times> tables_dir" where
  "anonAns db csv dir = anon_tables db csv anstables dir"

text \<open>
  The cells the rules flag: the column named by ColumnNo, in the rows of the answers that
  the table Answers links to the QuestionaireID of a rule with \<^verbatim>\<open>anonymise = 1\<close>.
\<close>

definition flagged :: "answers_row list \<Rightarrow> rule_row list \<Rightarrow> int \<Rightarrow> string \<Rightarrow> bool" where
  "flagged answers rules aid col =
     list_ex (\<lambda>q. rule_anonymise q = 1 \<and> str_int (rule_ColumnNo q) = col \<and>
                  list_ex (\<lambda>an. ans_QuestionaireID an = rule_QuestionaireID q \<and>
                                 ans_AnswerID an = aid) answers) rules"

text \<open>
  The hypothesis under which the pass anonymises a table: AnswerID is a key of the answer
  table, and every flagged cell is a cell of the table, in a column of type object.
\<close>

definition rules_resolve :: "answers_row list \<Rightarrow> rule_row list \<Rightarrow> answer_table \<Rightarrow> bool" where
  "rules_resolve answers rules a =
     (distinct (map arow_AnswerID (tab_rows a)) \<and>
      list_all (\<lambda>q. list_all (\<lambda>an.
                  rule_anonymise q = 1 \<and> rule_QuestionaireID q = ans_QuestionaireID an
                    \<longrightarrow> ans_AnswerID an \<in> set (map arow_AnswerID (tab_rows a)) \<and>
                        str_int (rule_ColumnNo q) \<in> set (tab_columns a) \<and>
                        \<not> numeric_column (str_int (rule_ColumnNo q)) (tab_rows a)) answers) rules)"

text \<open>
  The table the pass is to save: the answer table with the sentinel in the flagged cells,
  every other cell as it was, a \<^verbatim>\<open>None\<close> written as NaN.
\<close>

definition anonymised_row :: "answers_row list \<Rightarrow> rule_row list \<Rightarrow> answer_row \<Rightarrow> answer_row" where
  "anonymised_row answers rules r =
     r\<lparr>arow_cells := (\<lambda>col. if flagged answers rules (arow_AnswerID r) col then sentinel
                              else fillna_nan (arow_cells r col))\<rparr>"

definition anonymised_table ::
  "answers_row list \<Rightarrow> rule_row list \<Rightarrow> answer_table \<Rightarrow> answer_table" where
  "anonymised_table answers rules a = a\<lparr>tab_rows := map (anonymised_row answers rules) (tab_rows a)\<rparr>"

text \<open>A table with the sentinel in the cells that \<open>P\<close> selects by AnswerID and column.\<close>

definition mask_cells :: "(int \<Rightarrow> string \<Rightarrow> bool) \<Rightarrow> answer_table \<Rightarrow> answer_table" where
  "mask_cells P a =
     a\<lparr>tab_rows := map (\<lambda>r. r\<lparr>arow_cells := (\<lambda>col. if P (arow_AnswerID r) col then sentinel
                                                   else arow_cells r col)\<rparr>) (tab_rows a)\<rparr>"

text \<open>The cells of one column of a table.\<close>

definition column :: "string \<Rightarrow> answer_table \<Rightarrow> cell list" where
  "column col a = map (\<lambda>r. arow_cells r col) (tab_rows a)"

text \<open>
  The years \<open>Y\<close> partition the groups: every row of the flattened table carries one of
  the years, and every group the link table assigns to a profile is a row of that table.
\<close>

definition years_partition :: "pyval set \<Rightarrow> database \<Rightarrow> flat_row list \<Rightarrow> bool" where
  "years_partition Y db allrows =
     ((\<forall>r\<in>set allrows. \<exists>y\<in>Y. flat_Year r = Some (py_str y)) \<and>
      (\<forall>l\<in>set (allprofiles db). lnk_GroupID l \<in> set (map flat_GroupID allrows)))"

text \<open>The description the units table gives a code.\<close>

definition lookup_label :: "puom_row list \<Rightarrow> int \<Rightarrow> string option" where
  "lookup_label puom c = map_of (map (\<lambda>p. (puom_UnitsID p, puom_Description p)) puom) c"

text \<open>The unit label of a profile: the description the units table gives its code.\<close>

definition unit_label :: "puom_row list \<Rightarrow> profiles_row \<Rightarrow> string option" where
  "unit_label puom m = (case prof_UoM m of None \<Rightarrow> None | Some c \<Rightarrow> lookup_label puom c)"

section \<open>Example data\<close>

text \<open>
  A Groups table of four levels: Domestic, the survey Eskom LR, the years 2001 and 2002,
  one town in each year.
\<close>

definition ex_groups :: "group_raw list" where
  "ex_groups =
     [\<lparr>raw_GroupID = 1, raw_ParentID = None, raw_GroupName = Some ''Domestic '', raw_ContextID = Some 1\<rparr>,
      \<lparr>raw_GroupID = 2, raw_ParentID = Some 1, raw_GroupName = Some ''Eskom LR'', raw_ContextID = Some 1\<rparr>,
      \<lparr>raw_GroupID = 3, raw_ParentID = Some 2, raw_GroupName = Some ''2001'', raw_ContextID = Some 1\<rparr>,
      \<lparr>raw_GroupID = 5, raw_ParentID = Some 2, raw_GroupName = Some ''2002'', raw_ContextID = Some 1\<rparr>,
      \<lparr>raw_GroupID = 6, raw_ParentID = Some 5, raw_GroupName = Some '' Town B'', raw_ContextID = Some 1\<rparr>,
      \<lparr>raw_GroupID = 4, raw_ParentID = Some 3, raw_GroupName = Some '' Town A'', raw_ContextID = Some 1\<rparr>]"

definition ex_flat :: "flat_row list" where
  "ex_flat =
     [\<lparr>flat_ContextID = Some 1, flat_GroupID_1 = Some 1, flat_GroupID_2 = Some 2,
       flat_GroupID_3 = Some 3, flat_GroupID = 4, flat_Dom_NonDom = Some ''Domestic'',
       flat_Survey = Some ''Eskom LR'', flat_Year = Some ''2001'', flat_Location = ''Town A''\<rparr>,
      \<lparr>flat_ContextID = Some 1, flat_GroupID_1 = Some 1, flat_GroupID_2 = Some 2,
       flat_GroupID_3 = Some 5, flat_GroupID = 6, flat_Dom_NonDom = Some ''Domestic'',
       flat_Survey = Some ''Eskom LR'', flat_Year = Some ''2002'', flat_Location = ''Town B''\<rparr>]"

text \<open>The same table where the town of 2001 has no name.\<close>

definition nameless_groups :: "group_raw list" where
  "nameless_groups =
     [\<lparr>raw_GroupID = 1, raw_ParentID = None, raw_GroupName = Some ''Domestic'', raw_ContextID = Some 1\<rparr>,
      \<lparr>raw_GroupID = 2, raw_ParentID = Some 1, raw_GroupName = Some ''Eskom LR'', raw_ContextID = Some 1\<rparr>,
      \<lparr>raw_GroupID = 3, raw_ParentID = Some 2, raw_GroupName = Some ''2001'', raw_ContextID = Some 1\<rparr>,
      \<lparr>raw_GroupID = 4, raw_ParentID = Some 3, raw_GroupName = None, raw_ContextID = Some 1\<rparr>]"

text \<open>
  A tree whose year group has the identifier \<open>2 ^ 53 + 1\<close>: read as a double, the
  ParentID of its town is \<open>2 ^ 53\<close>.
\<close>

definition wide_groups :: "group_raw list" where
  "wide_groups =
     [\<lparr>raw_GroupID = 1, raw_ParentID = None, raw_GroupName = Some ''Domestic'', raw_ContextID = Some 1\<rparr>,
      \<lparr>raw_GroupID = 2, raw_ParentID = Some 1, raw_GroupName = Some ''Eskom LR'', raw_ContextID = Some 1\<rparr>,
      \<lparr>raw_GroupID = 9007199254740993, raw_ParentID = Some 2, raw_GroupName = Some ''2001'',
        raw_ContextID = Some 1\<rparr>,
      \<lparr>raw_GroupID = 4, raw_ParentID = Some 9007199254740993, raw_GroupName = Some ''Town A'',
        raw_ContextID = Some 1\<rparr>]"

text \<open>
  A server that holds one measurement of profile 1 and one of profile 2 in the middle of
  each of the twelve months, and answers the query of month \<open>i\<close> for these two profiles
  with them unless \<open>fails i\<close>.
\<close>

definition month_rows :: "nat \<Rightarrow> measurement list" where
  "month_rows i =
     [\<lparr>meas_ProfileID = 1, meas_Datefield = ''2001-'' @ str_nat i @ ''-15 12:00'',
       meas_Unitsread = int i, meas_Valid = ''Y''\<rparr>,
      \<lparr>meas_ProfileID = 2, meas_Datefield = ''2001-'' @ str_nat i @ ''-15 12:00'',
       meas_Unitsread = 100 + int i, meas_Valid = ''Y''\<rparr>]"

definition ex_server :: "(nat \<Rightarrow> bool) \<Rightarrow> string \<Rightarrow> measurement list option" where
  "ex_server fails q =
     (case filter (\<lambda>i. q = month_query ''1, 2'' i) [1..<13] of
        [] \<Rightarrow> None
      | i # _ \<Rightarrow> if fails i then None else Some (month_rows i))"

definition no_failure :: "nat \<Rightarrow> bool" where
  "no_failure i = False"

definition march_fails :: "nat \<Rightarrow> bool" where
  "march_fails i = (i = 3)"

text \<open>The rows of November, joined with the metadata of the two profiles.\<close>

definition november :: "profile_row list" where
  "november =
     [\<lparr>pr_ProfileID = 1, pr_Datefield = ''2001-11-15 12:00'', pr_Unitsread = 11,
       pr_Valid = ''Y'', pr_Active = 1, pr_RecorderID = ''R1'', pr_UoM = Some ''kW avg''\<rparr>,
      \<lparr>pr_ProfileID = 2, pr_Datefield = ''2001-11-15 12:00'', pr_Unitsread = 111,
       pr_Valid = ''Y'', pr_Active = 1, pr_RecorderID = ''R2'', pr_UoM = Some ''A avg''\<rparr>]"

text \<open>
  A database where profile 1 is of 2001, profile 2 of 2002 and profile 3 of no group.
  Column 5 of the blob answers and column 3 of the char answers hold texts, column 6 is
  empty, column 4 holds numbers.
\<close>

definition ex_db :: "(nat \<Rightarrow> bool) \<Rightarrow> database" where
  "ex_db fails =
     \<lparr>db_LinkTable = [\<lparr>lnk_ProfileID = 1, lnk_AnswerID = 1, lnk_GroupID = 4\<rparr>,
                      \<lparr>lnk_ProfileID = 2, lnk_AnswerID = 2, lnk_GroupID = 6\<rparr>,
                      \<lparr>lnk_ProfileID = 3, lnk_AnswerID = 0, lnk_GroupID = 0\<rparr>],
      db_Groups = ex_groups,
      db_profiles = [\<lparr>prof_Active = 1, prof_ProfileId = 1, prof_RecorderID = ''R1'', prof_UoM = Some 2\<rparr>,
                     \<lparr>prof_Active = 1, prof_ProfileId = 2, prof_RecorderID = ''R2'', prof_UoM = Some 1\<rparr>,
                     \<lparr>prof_Active = 1, prof_ProfileId = 3, prof_RecorderID = ''R3'', prof_UoM = Some 2\<rparr>],
      db_ProfileUnitsOfMeasure = [\<lparr>puom_UnitsID = 1, puom_Description = ''A avg''\<rparr>,
                                  \<lparr>puom_UnitsID = 2, puom_Description = ''kW avg''\<rparr>],
      db_read_sql = ex_server fails,
      db_Answers = [\<lparr>ans_AnswerID = 1, ans_QuestionaireID = 7\<rparr>,
                    \<lparr>ans_AnswerID = 2, ans_QuestionaireID = 8\<rparr>],
      db_Answers_blob =
        \<lparr>tab_columns = [''5'', ''6''],
         tab_rows =
           [\<lparr>arow_AnswerID = 1, arow_cells = (\<lambda>c. NaN)(''5'' := Text ''Thandi'', ''6'' := PyNone)\<rparr>,
            \<lparr>arow_AnswerID = 2, arow_cells = (\<lambda>c. NaN)(''5'' := Text ''yes'', ''6'' := PyNone)\<rparr>]\<rparr>,
      db_Answers_char =
        \<lparr>tab_columns = [''3'', ''4''],
         tab_rows =
           [\<lparr>arow_AnswerID = 1, arow_cells = (\<lambda>c. NaN)(''3'' := Text ''x'', ''4'' := Number 3)\<rparr>,
            \<lparr>arow_AnswerID = 2,
              arow_cells = (\<lambda>c. NaN)(''3'' := Text ''12 Main Road'', ''4'' := Number 5)\<rparr>]\<rparr>\<rparr>"

text \<open>
  The same database where the profiles 1 and 2 are of 2001 and profile 3 is of 2002; the
  same with the units table in another order; the same with a server that rejects every
  query.
\<close>

definition year_db :: "(nat \<Rightarrow> bool) \<Rightarrow> database" where
  "year_db fails = (ex_db fails)
     \<lparr>db_LinkTable := [\<lparr>lnk_ProfileID = 1, lnk_AnswerID = 1, lnk_GroupID = 4\<rparr>,
                       \<lparr>lnk_ProfileID = 2, lnk_AnswerID = 2, lnk_GroupID = 4\<rparr>,
                       \<lparr>lnk_ProfileID = 3, lnk_AnswerID = 3, lnk_GroupID = 6\<rparr>]\<rparr>"

definition unsorted_db :: database where
  "unsorted_db = (year_db no_failure)
     \<lparr>db_ProfileUnitsOfMeasure := [\<lparr>puom_UnitsID = 2, puom_Description = ''kW avg''\<rparr>,
                                   \<lparr>puom_UnitsID = 1, puom_Description = ''A avg''\<rparr>]\<rparr>"

definition rejecting_db :: database where
  "rejecting_db = (year_db no_failure)\<lparr>db_read_sql := (\<lambda>q. None)\<rparr>"

text \<open>The rule files: column 5 of questionnaire 7 (blob), column 3 of questionnaire 8 (char).\<close>

definition ex_csv :: "string \<Rightarrow> rule_row list" where
  "ex_csv v =
     (if v = ''blobQs.csv'' then
        [\<lparr>rule_QuestionaireID = 7, rule_ColumnNo = 5, rule_anonymise = 1\<rparr>,
         \<lparr>rule_QuestionaireID = 8, rule_ColumnNo = 5, rule_anonymise = 0\<rparr>]
      else [\<lparr>rule_QuestionaireID = 8, rule_ColumnNo = 3, rule_anonymise = 1\<rparr>])"

text \<open>
  The same database where the answer with AnswerID 1 has no row in \<^verbatim>\<open>Answers_blob\<close>,
  where it has two, and where column 3 of \<^verbatim>\<open>Answers_char\<close> holds numbers.
\<close>

definition absent_db :: database where
  "absent_db = (ex_db no_failure)
     \<lparr>db_Answers := [\<lparr>ans_AnswerID = 1, ans_QuestionaireID = 7\<rparr>,
                     \<lparr>ans_AnswerID = 2, ans_QuestionaireID = 7\<rparr>],
      db_Answers_blob :=
        \<lparr>tab_columns = [''5''],
         tab_rows = [\<lparr>arow_AnswerID = 2, arow_cells = (\<lambda>c. NaN)(''5'' := Text ''Sipho'')\<rparr>]\<rparr>\<rparr>"

definition twice_db :: database where
  "twice_db = (ex_db no_failure)
     \<lparr>db_Answers_blob :=
        \<lparr>tab_columns = [''5''],
         tab_rows = [\<lparr>arow_AnswerID = 1, arow_cells = (\<lambda>c. NaN)(''5'' := Text ''Thandi'')\<rparr>,
                     \<lparr>arow_AnswerID = 1, arow_cells = (\<lambda>c. NaN)(''5'' := Text ''Sipho'')\<rparr>]\<rparr>\<rparr>"

definition numeric_db :: database where
  "numeric_db = (ex_db no_failure)
     \<lparr>db_Answers_char :=
        \<lparr>tab_columns = [''3''],
         tab_rows = [\<lparr>arow_AnswerID = 1, arow_cells = (\<lambda>c. NaN)(''3'' := Number 7)\<rparr>,
                     \<lparr>arow_AnswerID = 2, arow_cells = (\<lambda>c. NaN)(''3'' := Number 12)\<rparr>]\<rparr>\<rparr>"

section \<open>The flattening has one row for each location group\<close>

lemma merge_left_one:
  assumes "\<And>x. x \<in> set l \<Longrightarrow> length (filter (\<lambda>y. Some (ro y) = lo x) r) = 1"
  shows "map fst (merge_left l r lo ro) = l \<and>
         (\<forall>p\<in>set (merge_left l r lo ro). \<exists>y\<in>set r. snd p = Some y \<and> Some (ro y) = lo (fst p))"
  using assms
proof (induction l)
  case Nil
  then show ?case by (simp add: merge_left_def)
next
  case (Cons x xs)
  have "length (filter (\<lambda>y. Some (ro y) = lo x) r) = 1" using Cons.prems by simp
  then obtain y where y: "filter (\<lambda>y. Some (ro y) = lo x) r = [y]"
    by (cases "filter (\<lambda>y. Some (ro y) = lo x) r") auto
  have "y \<in> set (filter (\<lambda>y. Some (ro y) = lo x) r)" using y by simp
  then have yin: "y \<in> set r \<and> Some (ro y) = lo x" by simp
  have ih: "map fst (merge_left xs r lo ro) = xs \<and>
         (\<forall>p\<in>set (merge_left xs r lo ro). \<exists>y\<in>set r. snd p = Some y \<and> Some (ro y) = lo (fst p))"
    using Cons by simp
  have step: "merge_left (x # xs) r lo ro = (x, Some y) # merge_left xs r lo ro"
    using y by (simp add: merge_left_def)
  show ?case using ih yin by (simp add: step)
qed

lemma filter_filter_le: "length (filter Q (filter P xs)) \<le> length (filter Q xs)"
  by (induction xs) auto

text \<open>A child has exactly one row of its parent level to join with.\<close>

lemma child_match_one:
  assumes v: "resolves_once groups" and x: "x \<in> set (children_of level groups)"
    and lv: "\<exists>P. level = filter P groups"
  shows "length (filter (\<lambda>y. Some (grp_GroupID y) = Some (grp_ParentID x)) level) = 1"
proof -
  from lv obtain P where P: "level = filter P groups" by blast
  have xg: "x \<in> set groups" using x by (auto simp: children_of_def)
  have "length (filter (\<lambda>y. grp_GroupID y = grp_ParentID x) level)
          \<le> length (filter (\<lambda>y. grp_GroupID y = grp_ParentID x) groups)"
    unfolding P by (rule filter_filter_le)
  also have "\<dots> \<le> 1" using v xg by (simp add: resolves_once_def)
  finally have le: "length (filter (\<lambda>y. grp_GroupID y = grp_ParentID x) level) \<le> 1" .
  have "grp_ParentID x \<in> set (map grp_GroupID level)" using x by (simp add: children_of_def)
  then obtain y where "y \<in> set level" "grp_GroupID y = grp_ParentID x" by auto
  then have "y \<in> set (filter (\<lambda>y. grp_GroupID y = grp_ParentID x) level)" by simp
  then have "filter (\<lambda>y. grp_GroupID y = grp_ParentID x) level \<noteq> []" by force
  then have "length (filter (\<lambda>y. grp_GroupID y = grp_ParentID x) level) \<ge> 1"
    by (cases "filter (\<lambda>y. grp_GroupID y = grp_ParentID x) level") auto
  with le show ?thesis by simp
qed

lemma level_as_filter:
  "\<exists>P. groups_level_1 groups = filter P groups"
  "\<exists>P. groups_level_2 groups = filter P groups"
  "\<exists>P. groups_level_3 groups = filter P groups"
  unfolding groups_level_1_def groups_level_2_def groups_level_3_def children_of_def by blast+

lemma recon3_rows:
  assumes v: "resolves_once groups"
  shows "map fst (recon3 groups) = groups_level_4 groups"
    and "\<forall>p\<in>set (recon3 groups). \<exists>y\<in>set (groups_level_3 groups).
           snd p = Some y \<and> Some (grp_GroupID y) = Some (grp_ParentID (fst p))"
proof -
  have one: "\<And>x. x \<in> set (groups_level_4 groups) \<Longrightarrow>
      length (filter (\<lambda>y. Some (grp_GroupID y) = Some (grp_ParentID x)) (groups_level_3 groups)) = 1"
    unfolding groups_level_4_def by (rule child_match_one [OF v _ level_as_filter(3)])
  note m = merge_left_one [of "groups_level_4 groups" grp_GroupID "\<lambda>x. Some (grp_ParentID x)"
      "groups_level_3 groups", OF one]
  show "map fst (recon3 groups) = groups_level_4 groups" using m by (simp add: recon3_def)
  show "\<forall>p\<in>set (recon3 groups). \<exists>y\<in>set (groups_level_3 groups).
           snd p = Some y \<and> Some (grp_GroupID y) = Some (grp_ParentID (fst p))"
    using m unfolding recon3_def by blast
qed

lemma recon2_rows:
  assumes v: "resolves_once groups"
  shows "map fst (recon2 groups) = recon3 groups"
    and "\<forall>p\<in>set (recon2 groups). \<exists>y\<in>set (groups_level_2 groups).
           snd p = Some y \<and> Some (grp_GroupID y) = map_option grp_ParentID (snd (fst p))"
proof -
  have one: "\<And>x. x \<in> set (recon3 groups) \<Longrightarrow>
      length (filter (\<lambda>y. Some (grp_GroupID y) = map_option grp_ParentID (snd x))
        (groups_level_2 groups)) = 1"
  proof -
    fix x assume "x \<in> set (recon3 groups)"
    then obtain y where y: "y \<in> set (groups_level_3 groups)" "snd x = Some y"
      using recon3_rows(2) [OF v] by blast
    have "length (filter (\<lambda>z. Some (grp_GroupID z) = Some (grp_ParentID y))
        (groups_level_2 groups)) = 1"
      using y(1) unfolding groups_level_3_def
      by (rule child_match_one [OF v _ level_as_filter(2)])
    then show "length (filter (\<lambda>y. Some (grp_GroupID y) = map_option grp_ParentID (snd x))
        (groups_level_2 groups)) = 1" using y(2) by simp
  qed
  note m = merge_left_one [of "recon3 groups" grp_GroupID
      "\<lambda>x. map_option grp_ParentID (snd x)" "groups_level_2 groups", OF one]
  show "map fst (recon2 groups) = recon3 groups" using m by (simp add: recon2_def)
  show "\<forall>p\<in>set (recon2 groups). \<exists>y\<in>set (groups_level_2 groups).
           snd p = Some y \<and> Some (grp_GroupID y) = map_option grp_ParentID (snd (fst p))"
    using m unfolding recon2_def by blast
qed

lemma recon1_rows:
  assumes v: "resolves_once groups"
  shows "map fst (recon1 groups) = recon2 groups"
    and "\<forall>p\<in>set (recon1 groups). \<exists>y\<in>set (groups_level_1 groups).
           snd p = Some y \<and> Some (grp_GroupID y) = map_option grp_ParentID (snd (fst p))"
proof -
  have one: "\<And>x. x \<in> set (recon2 groups) \<Longrightarrow>
      length (filter (\<lambda>y. Some (grp_GroupID y) = map_option grp_ParentID (snd x))
        (groups_level_1 groups)) = 1"
  proof -
    fix x assume "x \<in> set (recon2 groups)"
    then obtain y where y: "y \<in> set (groups_level_2 groups)" "snd x = Some y"
      using recon2_rows(2) [OF v] by blast
    have "length (filter (\<lambda>z. Some (grp_GroupID z) = Some (grp_ParentID y))
        (groups_level_1 groups)) = 1"
      using y(1) unfolding groups_level_2_def
      by (rule child_match_one [OF v _ level_as_filter(1)])
    then show "length (filter (\<lambda>y. Some (grp_GroupID y) = map_option grp_ParentID (snd x))
        (groups_level_1 groups)) = 1" using y(2) by simp
  qed
  note m = merge_left_one [of "recon2 groups" grp_GroupID
      "\<lambda>x. map_option grp_ParentID (snd x)" "groups_level_1 groups", OF one]
  show "map fst (recon1 groups) = recon2 groups" using m by (simp add: recon1_def)
  show "\<forall>p\<in>set (recon1 groups). \<exists>y\<in>set (groups_level_1 groups).
           snd p = Some y \<and> Some (grp_GroupID y) = map_option grp_ParentID (snd (fst p))"
    using m unfolding recon1_def by blast
qed

text \<open>Every row of the three joins carries the chain of parents of its location group.\<close>

lemma recon1_chain:
  assumes v: "resolves_once groups" and p: "p \<in> set (recon1 groups)"
  shows "chain_row groups (prettyg p)"
proof -
  obtain g4 o3 o2 o1 where pe: "p = (((g4, o3), o2), o1)" by (metis prod.collapse)
  from recon1_rows(2) [OF v] p pe obtain g1 where g1: "g1 \<in> set (groups_level_1 groups)"
    "o1 = Some g1" "Some (grp_GroupID g1) = map_option grp_ParentID o2" by fastforce
  have "fst p \<in> set (map fst (recon1 groups))" using p by force
  then have p2: "((g4, o3), o2) \<in> set (recon2 groups)" using recon1_rows(1) [OF v] pe by simp
  from recon2_rows(2) [OF v] p2 obtain g2 where g2: "g2 \<in> set (groups_level_2 groups)"
    "o2 = Some g2" "Some (grp_GroupID g2) = map_option grp_ParentID o3" by fastforce
  have "fst ((g4, o3), o2) \<in> set (map fst (recon2 groups))" using p2 by force
  then have p3: "(g4, o3) \<in> set (recon3 groups)" using recon2_rows(1) [OF v] by simp
  from recon3_rows(2) [OF v] p3 obtain g3 where g3: "g3 \<in> set (groups_level_3 groups)"
    "o3 = Some g3" "Some (grp_GroupID g3) = Some (grp_ParentID g4)" by fastforce
  have "fst (g4, o3) \<in> set (map fst (recon3 groups))" using p3 by force
  then have g4: "g4 \<in> set (groups_level_4 groups)" using recon3_rows(1) [OF v] by simp
  show ?thesis unfolding chain_row_def pe
    using g1 g2 g3 g4 by (intro exI [of _ g4] exI [of _ g3] exI [of _ g2] exI [of _ g1]) auto
qed

lemma allgroups_locations:
  assumes v: "resolves_once groups"
  shows "map flat_GroupID (map prettyg (recon1 groups)) = map grp_GroupID (groups_level_4 groups)"
    and "map flat_Location (map prettyg (recon1 groups)) = map grp_GroupName (groups_level_4 groups)"
proof -
  have f: "\<And>p. flat_GroupID (prettyg p) = grp_GroupID (fst (fst (fst p)))"
    "\<And>p. flat_Location (prettyg p) = grp_GroupName (fst (fst (fst p)))"
    by (metis prettyg.simps prod.collapse flat_row.select_convs(5),
        metis prettyg.simps prod.collapse flat_row.select_convs(9))
  have "map (\<lambda>p. fst (fst (fst p))) (recon1 groups) = map fst (map fst (map fst (recon1 groups)))"
    by simp
  also have "\<dots> = groups_level_4 groups"
    by (simp only: recon1_rows(1) [OF v] recon2_rows(1) [OF v] recon3_rows(1) [OF v])
  finally have l4: "map (\<lambda>p. fst (fst (fst p))) (recon1 groups) = groups_level_4 groups" .
  have "map flat_GroupID (map prettyg (recon1 groups))
      = map grp_GroupID (map (\<lambda>p. fst (fst (fst p))) (recon1 groups))" by (simp add: f)
  then show "map flat_GroupID (map prettyg (recon1 groups)) = map grp_GroupID (groups_level_4 groups)"
    by (simp only: l4)
  have "map flat_Location (map prettyg (recon1 groups))
      = map grp_GroupName (map (\<lambda>p. fst (fst (fst p))) (recon1 groups))" by (simp add: f)
  then show "map flat_Location (map prettyg (recon1 groups)) = map grp_GroupName (groups_level_4 groups)"
    by (simp only: l4)
qed

text \<open>Numbers up to \<open>2 ^ 53\<close> in magnitude pass through the double unchanged.\<close>

lemma read_ParentID_exact: "\<bar>fillna0 p\<bar> \<le> 2 ^ 53 \<Longrightarrow> read_ParentID as_float p = fillna0 p"
  by (cases p)
    (auto simp: read_ParentID_def fillna0_def float64_int_def float64_mag_def astype_int64_def)

lemma normalise_rows_exact:
  "named tbl \<Longrightarrow> float_exact tbl \<Longrightarrow> normalise_rows as_float tbl = Inr (map normal_row tbl)"
proof (induction tbl)
  case Nil
  show ?case by simp
next
  case (Cons g tbl)
  then have ih: "normalise_rows as_float tbl = Inr (map normal_row tbl)"
    by (simp add: named_def float_exact_def)
  from Cons.prems obtain n where n: "raw_GroupName g = Some n" by (auto simp: named_def)
  have "read_ParentID as_float (raw_ParentID g) = fillna0 (raw_ParentID g)"
    using Cons.prems(2) by (simp add: float_exact_def read_ParentID_exact)
  then show ?case by (simp add: ih n normal_row_def)
qed

lemma count_by_column: "length (filter (\<lambda>p. f p = k) xs) = length (filter (\<lambda>v. v = k) (map f xs))"
  by (induction xs) auto

lemma valid_tree_resolves_once:
  assumes v: "valid_tree tbl"
  shows "resolves_once (map normal_row tbl)"
  unfolding resolves_once_def
proof
  fix g assume "g \<in> set (map normal_row tbl)"
  then obtain r where r: "r \<in> set tbl" "g = normal_row r" by auto
  have cnt: "\<And>k. length (filter (\<lambda>p. grp_GroupID p = k) (map normal_row tbl))
      = length (filter (\<lambda>p. raw_GroupID p = k) tbl)"
    by (simp add: filter_map comp_def normal_row_def)
  have pg: "grp_ParentID g = fillna0 (raw_ParentID r)" by (simp add: r(2) normal_row_def)
  show "length (filter (\<lambda>p. grp_GroupID p = grp_ParentID g) (map normal_row tbl)) \<le> 1"
  proof (cases "grp_ParentID g = 0")
    case True
    have "filter (\<lambda>p. raw_GroupID p = 0) tbl = []"
      using v by (auto simp: valid_tree_def filter_empty_conv)
    then show ?thesis by (simp only: cnt True) simp
  next
    case False
    then have "length (filter (\<lambda>p. raw_GroupID p = grp_ParentID g) tbl) = 1"
      using v r(1) pg by (auto simp: valid_tree_def)
    then show ?thesis by (simp only: cnt)
  qed
qed

text \<open>The levels the code computes are the levels of the table.\<close>

lemma children_of_level:
  assumes "level = map normal_row (filter (at_level tbl (Suc n)) tbl)"
  shows "children_of level (map normal_row tbl)
           = map normal_row (filter (at_level tbl (Suc (Suc n))) tbl)"
proof -
  have "\<And>g. (grp_ParentID (normal_row g) \<in> grp_GroupID ` set level)
      = at_level tbl (Suc (Suc n)) g"
    unfolding assms by (force simp: normal_row_def list_ex_iff)
  then have "filter (\<lambda>g. grp_ParentID (normal_row g) \<in> grp_GroupID ` set level) tbl
      = filter (at_level tbl (Suc (Suc n))) tbl"
    by (intro filter_cong refl)
  then show ?thesis by (simp add: children_of_def filter_map comp_def)
qed

lemma groups_level_4_locations:
  "groups_level_4 (map normal_row tbl) = map normal_row (location_groups tbl)"
proof -
  have "at_level tbl (Suc 0) = (\<lambda>g. fillna0 (raw_ParentID g) = 0)" by (simp add: fun_eq_iff)
  then have l1: "groups_level_1 (map normal_row tbl)
      = map normal_row (filter (at_level tbl (Suc 0)) tbl)"
    by (simp add: groups_level_1_def filter_map comp_def normal_row_def)
  have l2: "groups_level_2 (map normal_row tbl)
      = map normal_row (filter (at_level tbl (Suc (Suc 0))) tbl)"
    unfolding groups_level_2_def by (rule children_of_level [OF l1])
  have l3: "groups_level_3 (map normal_row tbl)
      = map normal_row (filter (at_level tbl (Suc (Suc (Suc 0)))) tbl)"
    unfolding groups_level_3_def by (rule children_of_level [OF l2])
  have l4: "groups_level_4 (map normal_row tbl)
      = map normal_row (filter (at_level tbl (Suc (Suc (Suc (Suc 0))))) tbl)"
    unfolding groups_level_4_def by (rule children_of_level [OF l3])
  have "(4::nat) = Suc (Suc (Suc (Suc 0)))" by simp
  then show ?thesis by (simp only: l4 location_groups_def)
qed

text \<open>
  Claim C3, as the code has it. For a Groups table that is a valid tree (no group has the
  identifier 0, the ParentID of every group that is not a root is the GroupID of exactly
  one row), in which every group has a name and every ParentID is at most \<open>2 ^ 53\<close> in
  magnitude, \<^verbatim>\<open>getGroups()\<close> returns a table with exactly one row for each group at
  level 4 of the tree, carrying that group's identifier and stripped name, and in every row
  the three ancestor names Dom\_NonDom, Survey and Year are present.
\<close>

theorem getGroups_one_row_per_location:
  assumes v: "valid_tree tbl" and names: "named tbl" and exact: "float_exact tbl"
  shows "\<exists>rows. getGroups None tbl = Inr rows \<and>
           length rows = length (location_groups tbl) \<and>
           mset (map (\<lambda>r. (flat_GroupID r, Some (flat_Location r))) rows)
             = mset (map (\<lambda>g. (raw_GroupID g, map_option strip (raw_GroupName g)))
                      (location_groups tbl)) \<and>
           (\<forall>r\<in>set rows. flat_Dom_NonDom r \<noteq> None \<and> flat_Survey r \<noteq> None \<and>
              flat_Year r \<noteq> None)"
proof -
  let ?groups = "map normal_row tbl"
  have n: "normalise tbl = Inr ?groups"
    unfolding normalise_def by (rule normalise_rows_exact [OF names exact])
  have ro: "resolves_once ?groups" by (rule valid_tree_resolves_once [OF v])
  let ?raw = "map prettyg (recon1 ?groups)"
  have g: "getGroups None tbl = Inr (allgroups ?groups)" by (simp add: getGroups_def n)
  have "map flat_GroupID ?raw = map grp_GroupID (groups_level_4 ?groups)"
    by (rule allgroups_locations(1) [OF ro])
  also have "\<dots> = map grp_GroupID (map normal_row (location_groups tbl))"
    by (simp only: groups_level_4_locations)
  also have "\<dots> = map raw_GroupID (location_groups tbl)"
    by (simp add: normal_row_def comp_def)
  finally have ids: "map flat_GroupID ?raw = map raw_GroupID (location_groups tbl)" .
  have "\<And>g. g \<in> set (location_groups tbl) \<Longrightarrow>
      Some (grp_GroupName (normal_row g)) = map_option strip (raw_GroupName g)"
    using names by (auto simp: location_groups_def named_def list_all_iff normal_row_def)
  then have nm: "map (\<lambda>g. Some (grp_GroupName (normal_row g))) (location_groups tbl)
      = map (\<lambda>g. map_option strip (raw_GroupName g)) (location_groups tbl)"
    by simp
  have "map (\<lambda>r. Some (flat_Location r)) ?raw = map Some (map flat_Location ?raw)"
    by (simp add: comp_def)
  also have "\<dots> = map Some (map grp_GroupName (map normal_row (location_groups tbl)))"
    by (simp only: allgroups_locations(2) [OF ro] groups_level_4_locations)
  also have "\<dots> = map (\<lambda>g. Some (grp_GroupName (normal_row g))) (location_groups tbl)"
    by (simp add: comp_def)
  finally have locs: "map (\<lambda>r. Some (flat_Location r)) ?raw
      = map (\<lambda>g. map_option strip (raw_GroupName g)) (location_groups tbl)"
    by (simp only: nm)
  have len: "length (allgroups ?groups) = length (location_groups tbl)"
    using arg_cong [OF ids, of length] by (simp add: allgroups_def)
  have "map (\<lambda>r. (flat_GroupID r, Some (flat_Location r))) ?raw
      = zip (map flat_GroupID ?raw) (map (\<lambda>r. Some (flat_Location r)) ?raw)"
    by (simp add: zip_map_map zip_same_conv_map)
  also have "\<dots> = zip (map raw_GroupID (location_groups tbl))
      (map (\<lambda>g. map_option strip (raw_GroupName g)) (location_groups tbl))"
    by (simp only: ids locs)
  also have "\<dots> = map (\<lambda>g. (raw_GroupID g, map_option strip (raw_GroupName g)))
      (location_groups tbl)"
    by (simp add: zip_map_map zip_same_conv_map)
  finally have rows: "map (\<lambda>r. (flat_GroupID r, Some (flat_Location r))) ?raw
      = map (\<lambda>g. (raw_GroupID g, map_option strip (raw_GroupName g))) (location_groups tbl)" .
  have "mset (map (\<lambda>r. (flat_GroupID r, Some (flat_Location r))) (allgroups ?groups))
      = mset (map (\<lambda>r. (flat_GroupID r, Some (flat_Location r))) ?raw)"
    by (simp only: allgroups_def mset_map mset_sort)
  then have ms: "mset (map (\<lambda>r. (flat_GroupID r, Some (flat_Location r))) (allgroups ?groups))
      = mset (map (\<lambda>g. (raw_GroupID g, map_option strip (raw_GroupName g)))
          (location_groups tbl))"
    by (simp only: rows)
  have anc: "\<forall>r\<in>set (allgroups ?groups). flat_Dom_NonDom r \<noteq> None \<and> flat_Survey r \<noteq> None \<and>
              flat_Year r \<noteq> None"
  proof
    fix r assume "r \<in> set (allgroups ?groups)"
    then obtain p where "p \<in> set (recon1 ?groups)" "r = prettyg p" by (auto simp: allgroups_def)
    then have "chain_row ?groups r" using recon1_chain [OF ro] by simp
    then show "flat_Dom_NonDom r \<noteq> None \<and> flat_Survey r \<noteq> None \<and> flat_Year r \<noteq> None"
      by (auto simp: chain_row_def)
  qed
  show ?thesis using g len ms anc by blast
qed

theorem getGroups_one_row_per_location_witness:
  "valid_tree ex_groups \<and> named ex_groups \<and> float_exact ex_groups \<and>
   length (location_groups ex_groups) = 2 \<and>
   (\<exists>rows. getGroups None ex_groups = Inr rows \<and>
      length rows = length (location_groups ex_groups) \<and>
      mset (map (\<lambda>r. (flat_GroupID r, Some (flat_Location r))) rows)
        = mset (map (\<lambda>g. (raw_GroupID g, map_option strip (raw_GroupName g)))
                 (location_groups ex_groups)) \<and>
      list_all (\<lambda>r. flat_Dom_NonDom r \<noteq> None \<and> flat_Survey r \<noteq> None \<and> flat_Year r \<noteq> None) rows)"
proof -
  have v: "valid_tree ex_groups" by code_simp
  have n: "named ex_groups" by code_simp
  have e: "float_exact ex_groups" by code_simp
  have l: "length (location_groups ex_groups) = 2" by code_simp
  show ?thesis using v n e l getGroups_one_row_per_location [OF v n e]
    by (simp only: list_all_iff)
qed

text \<open>
  The claim as it is stated fails on two valid trees. In the first a town has no name, and
  stripping it raises AttributeError. In the second the year group has the identifier
  \<open>2 ^ 53 + 1\<close>: the ParentID column, read as doubles because the root has none, holds
  \<open>2 ^ 53\<close> for its town, which then is no child of it, and the table returned is empty
  although the tree has a group at level 4.
\<close>

theorem getGroups_valid_tree_counterexample:
  "valid_tree nameless_groups \<and> getGroups None nameless_groups = Inl AttributeError \<and>
   valid_tree wide_groups \<and> named wide_groups \<and> length (location_groups wide_groups) = 1 \<and>
   getGroups None wide_groups = Inr []"
  by code_simp

text \<open>The table the example flattens to: the two towns, under the names of their ancestors.\<close>

lemma getGroups_example: "getGroups None ex_groups = Inr ex_flat"
  by code_simp

section \<open>The year filter of getGroups\<close>

text \<open>
  Claim C4. \<^verbatim>\<open>getGroups(year)\<close> returns exactly the rows of the flattened table, in
  their order, whose Year column is the string \<^verbatim>\<open>str(year)\<close>: the comparison is an
  equality of strings, made on the table after the reconstruction. It raises whatever the
  reconstruction raises.
\<close>

theorem getGroups_year_filter:
  "getGroups (Some year) tbl =
     (case getGroups None tbl of
        Inl e \<Rightarrow> Inl e
      | Inr allrows \<Rightarrow> Inr (filter (\<lambda>r. flat_Year r = Some (py_str year)) allrows))"
  by (simp add: getGroups_def split: sum.splits)

text \<open>
  The year 2001 selects Town A, as a number and as a string; a string that only contains or
  only denotes 2001 selects nothing.
\<close>

lemma getGroups_year_examples:
  "map_sum id (map flat_Location) (getGroups (Some (PyInt 2001)) ex_groups) = Inr [''Town A'']"
  "map_sum id (map flat_Location) (getGroups (Some (PyStr ''2001'')) ex_groups) = Inr [''Town A'']"
  "getGroups (Some (PyStr ''200'')) ex_groups = Inr []"
  "getGroups (Some (PyStr ''02001'')) ex_groups = Inr []"
  "getGroups (Some (PyStr ''2001.0'')) ex_groups = Inr []"
  by code_simp+

section \<open>Identifier resolver\<close>

lemma set_unique: "set (unique xs) = set xs"
proof (induction xs rule: unique.induct)
  case 1
  show ?case by simp
next
  case (2 x xs)
  then show ?case by auto
qed

lemma distinct_unique: "distinct (unique xs)"
proof (induction xs rule: unique.induct)
  case 1
  show ?case by simp
next
  case (2 x xs)
  then show ?case by (simp add: set_unique)
qed

text \<open>
  Claim C8. The identifiers \<^verbatim>\<open>getProfileID\<close> and \<^verbatim>\<open>getAnswerID\<close> return are those
  of the link rows with a GroupID other than 0 and an identifier other than 0, and no
  others. Without a year \<^verbatim>\<open>getProfileID\<close> returns these link rows themselves (the set
  is that of their ProfileID column), and so does \<^verbatim>\<open>getAnswerID\<close>; for a year it
  returns a list without repetition, of the identifiers of the rows whose group is moreover
  a group of that year's flattened table, and raises what \<^verbatim>\<open>getGroups\<close> raises.
\<close>

theorem identifier_resolver_sets:
  "(\<exists>rows. getProfileID None db = Inr (LinkRows rows) \<and>
      set (map lnk_ProfileID rows) =
        {lnk_ProfileID l | l. l \<in> set (db_LinkTable db) \<and> lnk_GroupID l \<noteq> 0 \<and> lnk_ProfileID l \<noteq> 0})
   \<and> (case getGroups (Some y) (db_Groups db) of
         Inl e \<Rightarrow> getProfileID (Some y) db = Inl e
       | Inr gs \<Rightarrow>
          (\<exists>ids. getProfileID (Some y) db = Inr (Ids ids) \<and> distinct ids \<and>
             set ids = {lnk_ProfileID l | l. l \<in> set (db_LinkTable db) \<and> lnk_GroupID l \<noteq> 0 \<and>
                          lnk_ProfileID l \<noteq> 0 \<and> lnk_GroupID l \<in> set (map flat_GroupID gs)}))
   \<and> set (map lnk_AnswerID (getAnswerID db)) =
        {lnk_AnswerID l | l. l \<in> set (db_LinkTable db) \<and> lnk_GroupID l \<noteq> 0 \<and> lnk_AnswerID l \<noteq> 0}"
proof (intro conjI)
  show "\<exists>rows. getProfileID None db = Inr (LinkRows rows) \<and>
      set (map lnk_ProfileID rows) =
        {lnk_ProfileID l | l. l \<in> set (db_LinkTable db) \<and> lnk_GroupID l \<noteq> 0 \<and> lnk_ProfileID l \<noteq> 0}"
    by (auto simp: getProfileID_def allprofiles_def)
  show "case getGroups (Some y) (db_Groups db) of
         Inl e \<Rightarrow> getProfileID (Some y) db = Inl e
       | Inr gs \<Rightarrow>
          (\<exists>ids. getProfileID (Some y) db = Inr (Ids ids) \<and> distinct ids \<and>
             set ids = {lnk_ProfileID l | l. l \<in> set (db_LinkTable db) \<and> lnk_GroupID l \<noteq> 0 \<and>
                          lnk_ProfileID l \<noteq> 0 \<and> lnk_GroupID l \<in> set (map flat_GroupID gs)})"
    by (auto simp: getProfileID_def allprofiles_def set_unique distinct_unique split: sum.splits)
  show "set (map lnk_AnswerID (getAnswerID db)) =
        {lnk_AnswerID l | l. l \<in> set (db_LinkTable db) \<and> lnk_GroupID l \<noteq> 0 \<and> lnk_AnswerID l \<noteq> 0}"
    by (auto simp: getAnswerID_def)
qed

text \<open>In the example profile 3 has no group, profile 1 is of 2001 and profile 2 of 2002.\<close>

lemma getProfileID_examples:
  "getProfileID None (ex_db no_failure) =
     Inr (LinkRows [\<lparr>lnk_ProfileID = 1, lnk_AnswerID = 1, lnk_GroupID = 4\<rparr>,
                    \<lparr>lnk_ProfileID = 2, lnk_AnswerID = 2, lnk_GroupID = 6\<rparr>])"
  "getProfileID (Some (PyInt 2001)) (ex_db no_failure) = Inr (Ids [1])"
  "getProfileID (Some (PyInt 2002)) (ex_db no_failure) = Inr (Ids [2])"
  by code_simp+

text \<open>
  Claim C9. When the flattening succeeds and the years \<open>Y\<close> partition the groups (every
  flattened row carries one of the years, every group of a link row with a profile is a
  flattened row), no \<^verbatim>\<open>getProfileID(y)\<close> raises, and the profile identifiers of
  \<^verbatim>\<open>getProfileID()\<close> are the union over \<open>Y\<close> of those of \<^verbatim>\<open>getProfileID(y)\<close>.
\<close>

theorem getProfileID_union_of_years:
  assumes g: "getGroups None (db_Groups db) = Inr allrows" and yp: "years_partition Y db allrows"
  shows "(\<forall>y\<in>Y. \<exists>ids. getProfileID (Some y) db = Inr (Ids ids)) \<and>
         (\<exists>rows. getProfileID None db = Inr (LinkRows rows) \<and>
            profile_id_set (LinkRows rows) =
              (\<Union>y\<in>Y. {i. \<exists>ids. getProfileID (Some y) db = Inr (Ids ids) \<and> i \<in> set ids}))"
proof -
  from g obtain groups where n: "normalise (db_Groups db) = Inr groups"
    and ar: "allrows = allgroups groups"
    by (auto simp: getGroups_def split: sum.splits)
  have gy: "\<And>y. getGroups (Some y) (db_Groups db)
      = Inr (filter (\<lambda>r. flat_Year r = Some (py_str y)) allrows)"
    by (simp add: getGroups_def n ar)
  have py: "\<And>y. getProfileID (Some y) db =
      Inr (Ids (unique (map lnk_ProfileID (filter (\<lambda>l. lnk_GroupID l \<in>
        set (map flat_GroupID (filter (\<lambda>r. flat_Year r = Some (py_str y)) allrows)))
          (allprofiles db)))))"
    by (simp add: getProfileID_def gy)
  have none: "getProfileID None db = Inr (LinkRows (allprofiles db))"
    by (simp add: getProfileID_def)
  have "set (map lnk_ProfileID (allprofiles db)) =
      (\<Union>y\<in>Y. {i. \<exists>ids. getProfileID (Some y) db = Inr (Ids ids) \<and> i \<in> set ids})"
  proof (intro equalityI subsetI)
    fix i assume "i \<in> set (map lnk_ProfileID (allprofiles db))"
    then obtain l where l: "l \<in> set (allprofiles db)" "lnk_ProfileID l = i" by auto
    then have "lnk_GroupID l \<in> set (map flat_GroupID allrows)"
      using yp by (simp add: years_partition_def)
    then obtain r where r: "r \<in> set allrows" "flat_GroupID r = lnk_GroupID l" by auto
    then obtain y where y: "y \<in> Y" "flat_Year r = Some (py_str y)"
      using yp unfolding years_partition_def by blast
    have "lnk_GroupID l \<in> set (map flat_GroupID
        (filter (\<lambda>r. flat_Year r = Some (py_str y)) allrows))"
      using r y(2) by force
    then have "i \<in> set (unique (map lnk_ProfileID (filter (\<lambda>l. lnk_GroupID l \<in>
        set (map flat_GroupID (filter (\<lambda>r. flat_Year r = Some (py_str y)) allrows)))
          (allprofiles db))))"
      using l by (simp add: set_unique) blast
    then show "i \<in> (\<Union>y\<in>Y. {i. \<exists>ids. getProfileID (Some y) db = Inr (Ids ids) \<and> i \<in> set ids})"
      using y(1) py by blast
  next
    fix i assume "i \<in> (\<Union>y\<in>Y. {i. \<exists>ids. getProfileID (Some y) db = Inr (Ids ids) \<and> i \<in> set ids})"
    then obtain y ids where "getProfileID (Some y) db = Inr (Ids ids)" "i \<in> set ids" by blast
    then show "i \<in> set (map lnk_ProfileID (allprofiles db))"
      by (auto simp: py set_unique)
  qed
  then show ?thesis using py none by simp
qed

theorem getProfileID_union_of_years_witness:
  "getGroups None (db_Groups (ex_db no_failure)) = Inr ex_flat \<and>
   years_partition {PyInt 2001, PyInt 2002} (ex_db no_failure) ex_flat \<and>
   (\<exists>rows. getProfileID None (ex_db no_failure) = Inr (LinkRows rows) \<and>
      profile_id_set (LinkRows rows) =
        (\<Union>y\<in>{PyInt 2001, PyInt 2002}.
           {i. \<exists>ids. getProfileID (Some y) (ex_db no_failure) = Inr (Ids ids) \<and> i \<in> set ids}))"
proof -
  have g: "getGroups None (db_Groups (ex_db no_failure)) = Inr ex_flat" by code_simp
  have yp: "years_partition {PyInt 2001, PyInt 2002} (ex_db no_failure) ex_flat" by code_simp
  show ?thesis using g yp getProfileID_union_of_years [OF g yp] by blast
qed

section \<open>Metadata filter\<close>

text \<open>\<^verbatim>\<open>str\<close> gives different numbers different numerals.\<close>

lemma str_nat_nonempty: "str_nat n \<noteq> []"
  by (subst str_nat.simps) simp

lemma digit_char_inj: "a < 10 \<Longrightarrow> b < 10 \<Longrightarrow> digit_char a = digit_char b \<Longrightarrow> a = b"
proof -
  assume a: "a < 10" and b: "b < 10" and e: "digit_char a = digit_char b"
  have A: "a \<in> {0, 1, 2, 3, 4, 5, 6, 7, 8, 9}" using a by auto
  have B: "b \<in> {0, 1, 2, 3, 4, 5, 6, 7, 8, 9}" using b by auto
  show ?thesis using A B e by (auto simp: digit_char_def)
qed

lemma digit_char_not_minus: "a < 10 \<Longrightarrow> digit_char a \<noteq> CHR ''-''"
proof -
  assume a: "a < 10"
  have A: "a \<in> {0, 1, 2, 3, 4, 5, 6, 7, 8, 9}" using a by auto
  show ?thesis using A by (auto simp: digit_char_def)
qed

lemma str_nat_no_minus: "CHR ''-'' \<notin> set (str_nat n)"
proof (induction n rule: str_nat.induct)
  case (1 n)
  show ?case
  proof (cases "n < 10")
    case True
    then show ?thesis using digit_char_not_minus [of n] by (subst str_nat.simps) auto
  next
    case False
    then show ?thesis using 1 digit_char_not_minus [of "n mod 10"]
      by (subst str_nat.simps) auto
  qed
qed

lemma str_nat_inj: "str_nat n = str_nat m \<Longrightarrow> n = m"
proof (induction n arbitrary: m rule: str_nat.induct)
  case (1 n)
  show ?case
  proof (cases "n < 10")
    case n: True
    show ?thesis
    proof (cases "m < 10")
      case True
      then show ?thesis using n "1.prems"
        by (simp add: str_nat.simps [of n] str_nat.simps [of m] digit_char_inj)
    next
      case False
      then show ?thesis using n "1.prems" str_nat_nonempty [of "m div 10"]
        by (simp add: str_nat.simps [of n] str_nat.simps [of m])
    qed
  next
    case n: False
    show ?thesis
    proof (cases "m < 10")
      case True
      then show ?thesis using n "1.prems" str_nat_nonempty [of "n div 10"]
        by (simp add: str_nat.simps [of n] str_nat.simps [of m])
    next
      case False
      then have "str_nat (n div 10) = str_nat (m div 10)"
        and d: "digit_char (n mod 10) = digit_char (m mod 10)"
        using n "1.prems" by (simp_all add: str_nat.simps [of n] str_nat.simps [of m])
      then have "n div 10 = m div 10" using "1.IH" n by simp
      moreover have "n mod 10 = m mod 10" using d by (simp add: digit_char_inj)
      ultimately show ?thesis by (metis div_mult_mod_eq)
    qed
  qed
qed

lemma str_int_inj: "str_int i = str_int j \<Longrightarrow> i = j"
proof -
  assume e: "str_int i = str_int j"
  have hd: "\<And>n. str_nat n \<noteq> [] \<and> hd (str_nat n) \<noteq> CHR ''-''"
    using str_nat_no_minus str_nat_nonempty by (metis hd_in_set)
  show ?thesis
  proof (cases "i < 0")
    case i: True
    show ?thesis
    proof (cases "j < 0")
      case True
      then have "nat (- i) = nat (- j)" using e i by (simp add: str_int_def str_nat_inj)
      then show ?thesis using i True by simp
    next
      case False
      then have "CHR ''-'' # str_nat (nat (- i)) = str_nat (nat j)" using e i by (simp add: str_int_def)
      then show ?thesis using hd [of "nat j"] by (metis list.sel(1))
    qed
  next
    case i: False
    show ?thesis
    proof (cases "j < 0")
      case True
      then have "str_nat (nat i) = CHR ''-'' # str_nat (nat (- j))" using e i by (simp add: str_int_def)
      then show ?thesis using hd [of "nat i"] by (metis list.sel(1))
    next
      case False
      then have "nat i = nat j" using e i by (simp add: str_int_def str_nat_inj)
      then show ?thesis using i False by simp
    qed
  qed
qed

lemma isin_pids:
  "str_int i \<in> set (map str_int ids) \<longleftrightarrow> i \<in> set ids"
  "str_int i \<in> str_int ` set ids \<longleftrightarrow> i \<in> set ids"
  using str_int_inj by auto

text \<open>The rows of the metadata table of a year are the profiles that year's resolver names.\<close>

lemma metaprofiles_of_ids:
  assumes "getProfileID year db = Inr (Ids ids)"
  shows "metaprofiles year db =
     (let sel = filter (\<lambda>m. prof_ProfileId m \<in> set ids) (db_profiles db);
          categories = uom_categories sel;
          cats = map puom_Description
                   (filter (\<lambda>p. puom_UnitsID p \<in> set categories) (db_ProfileUnitsOfMeasure db))
      in if length sel < 2 then Inl AttributeError
         else if length cats = length categories \<and> distinct cats
         then Inr (map (\<lambda>m. \<lparr>mp_Active = prof_Active m, mp_ProfileId = prof_ProfileId m,
                              mp_RecorderID = prof_RecorderID m,
                              mp_UoM = (case prof_UoM m of
                                          None \<Rightarrow> None
                                        | Some c \<Rightarrow> map_of (zip categories cats) c)\<rparr>) sel)
         else Inl ValueError)"
  by (simp add: metaprofiles_def assms isin_pids)

text \<open>The rows of the metadata table of a year are the profiles that year's resolver names.\<close>

lemma metaprofiles_rows:
  assumes "getProfileID year db = Inr (Ids ids)" and "metaprofiles year db = Inr mp"
  shows "map mp_ProfileId mp =
           map prof_ProfileId (filter (\<lambda>m. prof_ProfileId m \<in> set ids) (db_profiles db))"
  using assms(2) unfolding metaprofiles_of_ids [OF assms(1)]
  by (auto simp: Let_def comp_def split: if_splits)

lemma map_of_filter_keys:
  "c \<in> S \<Longrightarrow> map_of (map (\<lambda>p. (k p, v p)) (filter (\<lambda>p. k p \<in> S) xs)) c
     = map_of (map (\<lambda>p. (k p, v p)) xs) c"
  by (induction xs) auto

lemma sorted_distinct_fill:
  assumes "sorted xs" "distinct xs" "sorted ys" "distinct ys"
    and "set xs \<subseteq> set ys" "length xs = length ys"
  shows "xs = ys"
proof -
  have "card (set xs) = card (set ys)" using assms(2,4,6) by (simp add: distinct_card)
  then have "set xs = set ys" using assms(5) by (simp add: card_subset_eq)
  then show ?thesis using assms(1-4) by (simp add: sorted_distinct_set_unique)
qed

text \<open>
  When the units table lists its codes in ascending order, each once, the label the
  positional renaming gives a code is the description the table gives it.
\<close>

lemma categories_renamed_by_lookup:
  assumes s: "sorted (map puom_UnitsID puom)" and d: "distinct (map puom_UnitsID puom)"
    and cs: "sorted categories" "distinct categories"
    and len: "length (map puom_Description (filter (\<lambda>p. puom_UnitsID p \<in> set categories) puom))
                = length categories"
    and c: "c \<in> set categories"
  shows "map_of (zip categories
           (map puom_Description (filter (\<lambda>p. puom_UnitsID p \<in> set categories) puom))) c
         = lookup_label puom c"
proof -
  let ?F = "filter (\<lambda>p. puom_UnitsID p \<in> set categories) puom"
  have "map puom_UnitsID ?F = filter (\<lambda>k. k \<in> set categories) (map puom_UnitsID puom)"
    by (simp add: filter_map comp_def)
  then have sF: "sorted (map puom_UnitsID ?F)" and dF: "distinct (map puom_UnitsID ?F)"
    using s d by (simp_all add: sorted_wrt_filter)
  have "set (map puom_UnitsID ?F) \<subseteq> set categories" by auto
  moreover have "length (map puom_UnitsID ?F) = length categories" using len by simp
  ultimately have ids: "map puom_UnitsID ?F = categories"
    using sorted_distinct_fill [OF sF dF cs] by blast
  have "zip categories (map puom_Description ?F)
      = zip (map puom_UnitsID ?F) (map puom_Description ?F)" by (simp only: ids)
  also have "\<dots> = map (\<lambda>p. (puom_UnitsID p, puom_Description p)) ?F"
    by (simp add: zip_map_map zip_same_conv_map)
  finally show ?thesis using c by (simp add: lookup_label_def map_of_filter_keys)
qed

lemma sorted_uom_categories: "sorted (uom_categories rows) \<and> distinct (uom_categories rows)"
  by (simp add: uom_categories_def)

lemma metaprofiles_labels:
  assumes s: "sorted (map puom_UnitsID (db_ProfileUnitsOfMeasure db))"
    and d: "distinct (map puom_UnitsID (db_ProfileUnitsOfMeasure db))"
    and ids: "getProfileID year db = Inr (Ids ids)" and mp: "metaprofiles year db = Inr mp"
  shows "map (\<lambda>m. (mp_ProfileId m, mp_UoM m)) mp =
           map (\<lambda>m. (prof_ProfileId m, unit_label (db_ProfileUnitsOfMeasure db) m))
             (filter (\<lambda>m. prof_ProfileId m \<in> set ids) (db_profiles db))"
proof -
  let ?sel = "filter (\<lambda>m. prof_ProfileId m \<in> set ids) (db_profiles db)"
  let ?puom = "db_ProfileUnitsOfMeasure db"
  let ?cs = "uom_categories ?sel"
  let ?cats = "map puom_Description (filter (\<lambda>p. puom_UnitsID p \<in> set ?cs) ?puom)"
  have ok: "length ?cats = length ?cs \<and> distinct ?cats"
    and mpe: "mp = map (\<lambda>m. \<lparr>mp_Active = prof_Active m, mp_ProfileId = prof_ProfileId m,
                                  mp_RecorderID = prof_RecorderID m,
                                  mp_UoM = (case prof_UoM m of
                                              None \<Rightarrow> None
                                            | Some c \<Rightarrow> map_of (zip ?cs ?cats) c)\<rparr>) ?sel"
    using mp unfolding metaprofiles_of_ids [OF ids] by (auto simp: Let_def split: if_splits)
  have lab: "\<And>m c. m \<in> set ?sel \<Longrightarrow> prof_UoM m = Some c \<Longrightarrow>
      map_of (zip ?cs ?cats) c = lookup_label ?puom c"
  proof -
    fix m c assume m: "m \<in> set ?sel" "prof_UoM m = Some c"
    then have "c \<in> set ?cs"
      unfolding uom_categories_def by (force simp: map_filter_def)
    then show "map_of (zip ?cs ?cats) c = lookup_label ?puom c"
      using categories_renamed_by_lookup [OF s d] sorted_uom_categories [of ?sel] ok by blast
  qed
  show ?thesis unfolding mpe by (auto simp: lab unit_label_def split: option.splits)
qed

text \<open>
  What the claim says of kW holds when the units table lists its codes in ascending order
  and the call returns: the list holds the profiles of the year whose unit label is
  \<^verbatim>\<open>kW avg\<close>.
\<close>

lemma getMetaProfiles_kW_by_lookup:
  assumes s: "sorted (map puom_UnitsID (db_ProfileUnitsOfMeasure db))"
    and d: "distinct (map puom_UnitsID (db_ProfileUnitsOfMeasure db))"
    and ids: "getProfileID year db = Inr (Ids ids)"
    and r: "getMetaProfiles year (Some ''kW'') db = Returned (mp, plist)"
  shows "plist = map prof_ProfileId
           (filter (\<lambda>m. prof_ProfileId m \<in> set ids \<and>
                        unit_label (db_ProfileUnitsOfMeasure db) m = Some ''kW avg'')
              (db_profiles db))"
proof -
  let ?sel = "filter (\<lambda>m. prof_ProfileId m \<in> set ids) (db_profiles db)"
  let ?lab = "unit_label (db_ProfileUnitsOfMeasure db)"
  have st: "strip ''kW'' @ '' avg'' = ''kW avg''" by (simp add: strip_def is_space_def)
  from r have m: "metaprofiles year db = Inr mp"
    and p: "plist = map mp_ProfileId (filter (\<lambda>m. mp_UoM m = Some ''kW avg'') mp)"
    by (auto simp: getMetaProfiles_def st split: sum.splits)
  have "plist = map fst (filter (\<lambda>x. snd x = Some ''kW avg'')
      (map (\<lambda>m. (mp_ProfileId m, mp_UoM m)) mp))"
    by (simp add: p filter_map comp_def)
  also have "\<dots> = map fst (filter (\<lambda>x. snd x = Some ''kW avg'')
      (map (\<lambda>m. (prof_ProfileId m, ?lab m)) ?sel))"
    by (simp only: metaprofiles_labels [OF s d ids m])
  also have "\<dots> = map prof_ProfileId (filter (\<lambda>m. ?lab m = Some ''kW avg'') ?sel)"
    by (simp add: filter_map comp_def)
  finally show ?thesis by (simp add: conj_commute)
qed

text \<open>
  Claim C6. The code does not do what the claim says on two inputs. In the first the year
  2002 has one profile, profile 3, whose unit is kW: \<^verbatim>\<open>getMetaProfiles(2002, 'kW')\<close>
  raises AttributeError instead of returning it. In the second the units table lists the
  code of kW before the code of A: for 2001 the labels of the two profiles are exchanged,
  and the call returns profile 2, whose unit is A, and not profile 1, whose unit is kW.
\<close>

theorem getMetaProfiles_kW_defects:
  "getProfileID (Some (PyInt 2002)) (year_db no_failure) = Inr (Ids [3]) \<and>
   map (unit_label (db_ProfileUnitsOfMeasure (year_db no_failure))) (db_profiles (year_db no_failure))
     = [Some ''kW avg'', Some ''A avg'', Some ''kW avg''] \<and>
   getMetaProfiles (Some (PyInt 2002)) (Some ''kW'') (year_db no_failure) = Raised AttributeError \<and>
   getProfileID (Some (PyInt 2001)) unsorted_db = Inr (Ids [1, 2]) \<and>
   map (unit_label (db_ProfileUnitsOfMeasure unsorted_db)) (db_profiles unsorted_db)
     = [Some ''kW avg'', Some ''A avg'', Some ''kW avg''] \<and>
   getMetaProfiles (Some (PyInt 2001)) (Some ''kW'') unsorted_db =
     Returned ([\<lparr>mp_Active = 1, mp_ProfileId = 1, mp_RecorderID = ''R1'', mp_UoM = Some ''A avg''\<rparr>,
                \<lparr>mp_Active = 1, mp_ProfileId = 2, mp_RecorderID = ''R2'', mp_UoM = Some ''kW avg''\<rparr>],
               [2])"
  by code_simp

text \<open>With two profiles in the year and the units table in order, kW selects profile 1.\<close>

lemma getMetaProfiles_examples:
  "getMetaProfiles (Some (PyInt 2001)) (Some ''kW'') (year_db no_failure) =
     Returned ([\<lparr>mp_Active = 1, mp_ProfileId = 1, mp_RecorderID = ''R1'', mp_UoM = Some ''kW avg''\<rparr>,
                \<lparr>mp_Active = 1, mp_ProfileId = 2, mp_RecorderID = ''R2'', mp_UoM = Some ''A avg''\<rparr>],
               [1])"
  "getMetaProfiles (Some (PyInt 2001)) (Some ''A'') (year_db no_failure) =
     Returned ([\<lparr>mp_Active = 1, mp_ProfileId = 1, mp_RecorderID = ''R1'', mp_UoM = Some ''kW avg''\<rparr>,
                \<lparr>mp_Active = 1, mp_ProfileId = 2, mp_RecorderID = ''R2'', mp_UoM = Some ''A avg''\<rparr>],
               [2])"
  by code_simp+




section \<open>Batch assembler\<close>

text \<open>
  Every pass of the loop that fetches overwrites \<open>df\<close>: after the months \<open>ms\<close> and then
  \<open>m\<close>, it holds the rows of \<open>m\<close> alone when the fetch of \<open>m\<close> succeeded.
\<close>

lemma month_loop_snoc:
  "foldl (month_step db mp sq) df (ms @ [m]) =
     (case db_read_sql db (month_query sq m) of
        None \<Rightarrow> foldl (month_step db mp sq) df ms
      | Some profiles \<Rightarrow> Some (merge_profiles profiles mp))"
  by (simp add: month_step_def)

text \<open>A month whose fetch succeeds leaves \<open>df\<close> bound, whatever happens to the others.\<close>

lemma month_loop_bound:
  "i \<in> set ms \<Longrightarrow> db_read_sql db (month_query sq i) \<noteq> None \<Longrightarrow>
     foldl (month_step db mp sq) df ms \<noteq> None"
proof (induction ms arbitrary: df rule: rev_induct)
  case Nil
  then show ?case by simp
next
  case (snoc m ms)
  show ?case
  proof (cases "db_read_sql db (month_query sq m)")
    case None
    then have i: "i \<in> set ms" using snoc.prems by auto
    have "foldl (month_step db mp sq) df (ms @ [m]) = foldl (month_step db mp sq) df ms"
      by (simp only: month_loop_snoc None option.case)
    then show ?thesis using snoc.IH [OF i snoc.prems(2), of df] by metis
  next
    case (Some a)
    have "foldl (month_step db mp sq) df (ms @ [m]) = Some (merge_profiles a mp)"
      by (simp only: month_loop_snoc Some option.case)
    then show ?thesis by simp
  qed
qed

text \<open>
  When the fetch of November succeeds \<^verbatim>\<open>getProfiles\<close> returns the rows of November
  joined with the metadata and nothing else, whatever the server holds for the other months.
\<close>

lemma getProfiles_november:
  assumes "getMetaProfiles year None db = Returned (mp, plist)"
    and "db_read_sql db (month_query (join '', '' (map str_int plist)) 11) = Some profiles"
  shows "getProfiles year month units db = Inr (merge_profiles profiles mp)"
proof -
  have up: "[1..<12] = [1..<11] @ [11::nat]" by (simp add: upt_rec)
  have loop: "foldl (month_step db mp (join '', '' (map str_int plist))) None [1..<12]
      = Some (merge_profiles profiles mp)"
    by (simp only: up month_loop_snoc assms(2) option.case)
  show ?thesis unfolding getProfiles_def
    by (simp only: assms(1) outcome.case prod.case Let_def loop option.case)
qed

text \<open>A failed month does not end the call: one month of January to November is enough.\<close>

lemma getProfiles_returns:
  assumes "getMetaProfiles year None db = Returned (mp, plist)"
    and "1 \<le> i" and "i \<le> 11"
    and "db_read_sql db (month_query (join '', '' (map str_int plist)) i) \<noteq> None"
  shows "\<exists>df. getProfiles year month units db = Inr df"
proof -
  have "i \<in> set [1..<12]" using assms(2,3) by simp
  from month_loop_bound [OF this assms(4)] obtain df where
    "foldl (month_step db mp (join '', '' (map str_int plist))) None [1..<12] = Some df"
    by blast
  then have "getProfiles year month units db = Inr df" unfolding getProfiles_def
    by (simp only: assms(1) outcome.case prod.case Let_def option.case)
  then show ?thesis by blast
qed

text \<open>
  Claim C1. The code does not do what the claim says. In the example the year 2001 has the
  profiles 1 and 2, and the server answers the query of each of the twelve months with
  that month's measurements of them; \<^verbatim>\<open>getProfiles(2001)\<close> returns the rows of
  November alone: the loop stops before December, and each pass replaces the rows of the
  pass before. With a server that rejects every query (the list after \<^verbatim>\<open>IN\<close> has no
  parentheses) no pass binds \<open>df\<close> and the call raises UnboundLocalError.
\<close>

theorem getProfiles_keeps_november_only:
  "db_read_sql (year_db no_failure) (month_query ''1, 2'' 1) = Some (month_rows 1) \<and>
   db_read_sql (year_db no_failure) (month_query ''1, 2'' 12) = Some (month_rows 12) \<and>
   getProfiles (Some (PyInt 2001)) None None (year_db no_failure) = Inr november \<and>
   getProfiles (Some (PyInt 2001)) None None rejecting_db = Inl UnboundLocalError"
  by code_simp

text \<open>
  Claim C2. The code does only the first half of what the claim says. With the fetch of
  March alone failing, \<^verbatim>\<open>getProfiles(2001)\<close> does return, but the rows of November
  alone and not the rows of the ten other months fetched.
\<close>

theorem getProfiles_failed_month_drops_others:
  "db_read_sql (year_db march_fails) (month_query ''1, 2'' 3) = None \<and>
   db_read_sql (year_db march_fails) (month_query ''1, 2'' 1) = Some (month_rows 1) \<and>
   getProfiles (Some (PyInt 2001)) None None (year_db march_fails) = Inr november"
  by code_simp

text \<open>For a year with one profile the call raises before any month is fetched.\<close>

lemma getProfiles_one_profile:
  "getProfiles (Some (PyInt 2002)) None None (year_db no_failure) = Inl AttributeError"
  by code_simp

text \<open>
  Claim C10. The result of \<^verbatim>\<open>getProfiles(year, month, units)\<close> does not depend on
  \<open>month\<close> and \<open>units\<close>: on the same database two calls for the same year return the
  same table or raise the same exception.
\<close>

theorem getProfiles_ignores_month_units:
  "getProfiles year month units db = getProfiles year month' units' db"
  by (simp add: getProfiles_def)

section \<open>Anonymisation pass\<close>

lemma first_index_Some:
  "aid \<in> set (map arow_AnswerID rows) \<Longrightarrow>
     \<exists>i. first_index aid rows = Some i \<and> i < length rows \<and> arow_AnswerID (rows ! i) = aid"
proof (induction rows)
  case Nil
  then show ?case by simp
next
  case (Cons r rows)
  show ?case
  proof (cases "arow_AnswerID r = aid")
    case True
    then show ?thesis by simp
  next
    case False
    then have "aid \<in> set (map arow_AnswerID rows)" using Cons.prems by auto
    from Cons.IH [OF this] obtain i where "first_index aid rows = Some i" "i < length rows"
      "arow_AnswerID (rows ! i) = aid" by blast
    then show ?thesis using False by simp
  qed
qed

lemma first_index_None:
  "aid \<notin> set (map arow_AnswerID rows) \<Longrightarrow> first_index aid rows = None"
  by (induction rows) auto

text \<open>Where AnswerID is a key, updating the row at its position updates all its rows.\<close>

lemma update_keyed_row:
  assumes d: "distinct (map arow_AnswerID rows)" and i: "i < length rows"
    and a: "arow_AnswerID (rows ! i) = aid"
  shows "rows[i := g (rows ! i)] = map (\<lambda>r. if arow_AnswerID r = aid then g r else r) rows"
proof (rule nth_equalityI)
  show "length (rows[i := g (rows ! i)])
      = length (map (\<lambda>r. if arow_AnswerID r = aid then g r else r) rows)" by simp
next
  fix j assume "j < length (rows[i := g (rows ! i)])"
  then have j: "j < length rows" by simp
  show "rows[i := g (rows ! i)] ! j = map (\<lambda>r. if arow_AnswerID r = aid then g r else r) rows ! j"
  proof (cases "j = i")
    case True
    then show ?thesis using i a by simp
  next
    case False
    have "(map arow_AnswerID rows ! j = map arow_AnswerID rows ! i) = (j = i)"
      by (rule nth_eq_iff_index_eq [OF d]) (simp_all add: i j)
    then have "arow_AnswerID (rows ! j) \<noteq> aid" using i j a False by simp
    then show ?thesis using False j by simp
  qed
qed

lemma put_sentinel_mask:
  "put_cell col sentinel r
     = r\<lparr>arow_cells := (\<lambda>c. if c = col then sentinel else arow_cells r c)\<rparr>"
  by (simp add: put_cell_def fun_upd_def)

lemma mask_cells_rows [simp]:
  "map arow_AnswerID (tab_rows (mask_cells P a)) = map arow_AnswerID (tab_rows a)"
  "tab_columns (mask_cells P a) = tab_columns a"
  by (simp_all add: mask_cells_def comp_def)

lemma mask_cells_twice:
  "mask_cells Q (mask_cells P a) = mask_cells (\<lambda>aid col. P aid col \<or> Q aid col) a"
  by (auto simp: mask_cells_def fun_eq_iff)

lemma mask_cells_object:
  assumes "\<not> numeric_column col (tab_rows a)"
  shows "\<not> numeric_column col (tab_rows (mask_cells P a))"
proof -
  from assms obtain r where r: "r \<in> set (tab_rows a)" "\<not> numeric_cell (arow_cells r col)"
    by (auto simp: numeric_column_def list_all_iff)
  let ?r = "r\<lparr>arow_cells := (\<lambda>c. if P (arow_AnswerID r) c then sentinel else arow_cells r c)\<rparr>"
  have "?r \<in> set (tab_rows (mask_cells P a))" using r(1) by (auto simp: mask_cells_def)
  moreover have "\<not> numeric_cell (arow_cells ?r col)" using r(2) by (simp add: sentinel_def)
  ultimately show ?thesis unfolding numeric_column_def list_all_iff by blast
qed

text \<open>One call of \<^verbatim>\<open>set_value\<close> on a keyed table masks the cell of that answer.\<close>

lemma set_value_masks:
  assumes d: "distinct (map arow_AnswerID (tab_rows a))"
    and i: "i < length (tab_rows a)" "arow_AnswerID (tab_rows a ! i) = aid"
    and c: "col \<in> set (tab_columns a)" "\<not> numeric_column col (tab_rows a)"
  shows "set_value i col a = Inr (mask_cells (\<lambda>x y. x = aid \<and> y = col) a)"
proof -
  have "(tab_rows a)[i := put_cell col sentinel (tab_rows a ! i)]
      = map (\<lambda>r. if arow_AnswerID r = aid then put_cell col sentinel r else r) (tab_rows a)"
    by (rule update_keyed_row [OF d i])
  also have "\<dots> = map (\<lambda>r. r\<lparr>arow_cells := (\<lambda>y. if arow_AnswerID r = aid \<and> y = col then sentinel
                                                   else arow_cells r y)\<rparr>) (tab_rows a)"
    by (rule map_cong) (auto simp: put_sentinel_mask)
  finally show ?thesis using c by (simp add: set_value_def mask_cells_def)
qed

text \<open>The loop masks the cells its rows name, one after the other.\<close>

lemma anonymise_rows_masks:
  assumes "distinct (map arow_AnswerID (tab_rows a))"
    and "\<forall>t\<in>set q. fst t \<in> set (map arow_AnswerID (tab_rows a)) \<and>
           str_int (fst (snd t)) \<in> set (tab_columns a) \<and>
           \<not> numeric_column (str_int (fst (snd t))) (tab_rows a)"
  shows "anonymise_rows q a =
           Inr (mask_cells (\<lambda>aid col. \<exists>t\<in>set q. fst t = aid \<and> str_int (fst (snd t)) = col) a)"
  using assms
proof (induction q a rule: anonymise_rows.induct)
  case (1 a)
  have "mask_cells (\<lambda>aid col. False) a = a" by (simp add: mask_cells_def)
  then show ?case by simp
next
  case (2 aid colno flag rest a)
  let ?col = "str_int colno"
  have here: "aid \<in> set (map arow_AnswerID (tab_rows a))" "?col \<in> set (tab_columns a)"
    "\<not> numeric_column ?col (tab_rows a)" using "2.prems"(2) by simp_all
  from first_index_Some [OF here(1)] obtain i where i: "first_index aid (tab_rows a) = Some i"
    "i < length (tab_rows a)" "arow_AnswerID (tab_rows a ! i) = aid" by blast
  let ?a1 = "mask_cells (\<lambda>x y. x = aid \<and> y = ?col) a"
  have sv: "set_value i ?col a = Inr ?a1"
    by (rule set_value_masks [OF "2.prems"(1) i(2,3) here(2,3)])
  have d1: "distinct (map arow_AnswerID (tab_rows ?a1))" using "2.prems"(1) by simp
  have r1: "\<forall>t\<in>set rest. fst t \<in> set (map arow_AnswerID (tab_rows ?a1)) \<and>
           str_int (fst (snd t)) \<in> set (tab_columns ?a1) \<and>
           \<not> numeric_column (str_int (fst (snd t))) (tab_rows ?a1)"
    using "2.prems"(2) by (simp add: mask_cells_object del: set_map)
  have "anonymise_rows ((aid, colno, flag) # rest) a = anonymise_rows rest ?a1"
    by (simp add: i(1) sv)
  also have "\<dots> = Inr (mask_cells
      (\<lambda>aid col. \<exists>t\<in>set rest. fst t = aid \<and> str_int (fst (snd t)) = col) ?a1)"
    by (rule "2.IH" [OF i(1) sv d1 r1])
  also have "mask_cells (\<lambda>aid col. \<exists>t\<in>set rest. fst t = aid \<and> str_int (fst (snd t)) = col) ?a1
      = mask_cells (\<lambda>x y. \<exists>t\<in>set ((aid, colno, flag) # rest).
          fst t = x \<and> str_int (fst (snd t)) = y) a"
    unfolding mask_cells_twice
    by (rule arg_cong [where f = "\<lambda>P. mask_cells P a"]) (auto simp: fun_eq_iff)
  finally show ?case .
qed

lemma in_concat_map: "x \<in> set xs \<Longrightarrow> y \<in> set (f x) \<Longrightarrow> y \<in> set (concat (map f xs))"
  by auto

lemma qanon_intro:
  assumes h: "an \<in> set answers" "q \<in> set rules" "rule_anonymise q = 1"
    "rule_QuestionaireID q = ans_QuestionaireID an"
  shows "(ans_AnswerID an, rule_ColumnNo q, rule_anonymise q) \<in> set (qanon answers rules)"
proof -
  let ?k = "ans_QuestionaireID an"
  let ?qs = "filter (\<lambda>q. rule_anonymise q = 1) rules"
  let ?inner = "\<lambda>k an. map (\<lambda>q. (ans_AnswerID an, rule_ColumnNo q, rule_anonymise q))
          (filter (\<lambda>q. rule_QuestionaireID q = k) ?qs)"
  let ?outer = "\<lambda>k. concat (map (?inner k) (filter (\<lambda>an. ans_QuestionaireID an = k) answers))"
  have 1: "?k \<in> set (unique (map ans_QuestionaireID answers))" using h(1) by (simp add: set_unique)
  have 2: "an \<in> set (filter (\<lambda>an. ans_QuestionaireID an = ?k) answers)" using h(1) by simp
  have 3: "q \<in> set (filter (\<lambda>q. rule_QuestionaireID q = ?k) ?qs)" using h(2,3,4) by simp
  have 4: "(ans_AnswerID an, rule_ColumnNo q, rule_anonymise q) \<in> set (?inner ?k an)"
    using 3 by (simp only: set_map) (rule imageI)
  have 5: "(ans_AnswerID an, rule_ColumnNo q, rule_anonymise q) \<in> set (?outer ?k)"
    by (rule in_concat_map [where f = "?inner ?k", OF 2 4])
  have "(ans_AnswerID an, rule_ColumnNo q, rule_anonymise q)
      \<in> set (concat (map ?outer (unique (map ans_QuestionaireID answers))))"
    by (rule in_concat_map [where f = ?outer, OF 1 5])
  then show ?thesis by (simp only: qanon_def Let_def)
qed

lemma qanon_iff:
  "(aid, colno, flag) \<in> set (qanon answers rules) \<longleftrightarrow>
     (\<exists>an\<in>set answers. \<exists>q\<in>set rules. rule_anonymise q = 1 \<and>
        rule_QuestionaireID q = ans_QuestionaireID an \<and>
        aid = ans_AnswerID an \<and> colno = rule_ColumnNo q \<and> flag = rule_anonymise q)"
proof
  assume "(aid, colno, flag) \<in> set (qanon answers rules)"
  then obtain an q where "an \<in> set answers" "q \<in> set rules" "rule_anonymise q = 1"
    "rule_QuestionaireID q = ans_QuestionaireID an"
    "(aid, colno, flag) = (ans_AnswerID an, rule_ColumnNo q, rule_anonymise q)"
    unfolding qanon_def Let_def by (auto simp: set_unique)
  then show "\<exists>an\<in>set answers. \<exists>q\<in>set rules. rule_anonymise q = 1 \<and>
        rule_QuestionaireID q = ans_QuestionaireID an \<and>
        aid = ans_AnswerID an \<and> colno = rule_ColumnNo q \<and> flag = rule_anonymise q" by auto
next
  assume "\<exists>an\<in>set answers. \<exists>q\<in>set rules. rule_anonymise q = 1 \<and>
        rule_QuestionaireID q = ans_QuestionaireID an \<and>
        aid = ans_AnswerID an \<and> colno = rule_ColumnNo q \<and> flag = rule_anonymise q"
  then obtain an q where h: "an \<in> set answers" "q \<in> set rules" "rule_anonymise q = 1"
    "rule_QuestionaireID q = ans_QuestionaireID an"
    "aid = ans_AnswerID an" "colno = rule_ColumnNo q" "flag = rule_anonymise q" by blast
  have "(ans_AnswerID an, rule_ColumnNo q, rule_anonymise q) \<in> set (qanon answers rules)"
    by (rule qanon_intro [OF h(1-4)])
  then show "(aid, colno, flag) \<in> set (qanon answers rules)" using h by simp
qed

lemma qanon_flagged:
  "(\<exists>t\<in>set (qanon answers rules). fst t = aid \<and> str_int (fst (snd t)) = col)
     \<longleftrightarrow> flagged answers rules aid col"
proof
  assume "\<exists>t\<in>set (qanon answers rules). fst t = aid \<and> str_int (fst (snd t)) = col"
  then obtain colno flag where "(aid, colno, flag) \<in> set (qanon answers rules)"
    "str_int colno = col" by force
  then show "flagged answers rules aid col"
    unfolding qanon_iff flagged_def list_ex_iff by metis
next
  assume "flagged answers rules aid col"
  then obtain q an where "q \<in> set rules" "an \<in> set answers" "rule_anonymise q = 1"
    "str_int (rule_ColumnNo q) = col" "ans_QuestionaireID an = rule_QuestionaireID q"
    "ans_AnswerID an = aid"
    unfolding flagged_def list_ex_iff by blast
  then have "(aid, rule_ColumnNo q, rule_anonymise q) \<in> set (qanon answers rules)"
    unfolding qanon_iff by force
  then show "\<exists>t\<in>set (qanon answers rules). fst t = aid \<and> str_int (fst (snd t)) = col"
    using \<open>str_int (rule_ColumnNo q) = col\<close> by force
qed

lemma fillna_mask_cells:
  "fillna_table (mask_cells (flagged answers rules) a) = anonymised_table answers rules a"
  by (auto simp: fillna_table_def mask_cells_def anonymised_table_def anonymised_row_def
      fillna_row_def sentinel_def fun_eq_iff)

text \<open>What the pass makes of one table, and what it hands to \<^verbatim>\<open>saveTables\<close>.\<close>

lemma anonymise_table:
  assumes rr: "rules_resolve answers rules a"
  shows "anonymise_rows (qanon answers rules) a = Inr (mask_cells (flagged answers rules) a)"
proof -
  have d: "distinct (map arow_AnswerID (tab_rows a))" using rr by (simp add: rules_resolve_def)
  have q: "\<forall>t\<in>set (qanon answers rules). fst t \<in> set (map arow_AnswerID (tab_rows a)) \<and>
           str_int (fst (snd t)) \<in> set (tab_columns a) \<and>
           \<not> numeric_column (str_int (fst (snd t))) (tab_rows a)"
  proof
    fix t assume t: "t \<in> set (qanon answers rules)"
    obtain aid colno flag where te: "t = (aid, colno, flag)" by (cases t) auto
    have "(aid, colno, flag) \<in> set (qanon answers rules)" using t te by simp
    then obtain an q where "an \<in> set answers" "q \<in> set rules" "rule_anonymise q = 1"
      "rule_QuestionaireID q = ans_QuestionaireID an" "aid = ans_AnswerID an"
      "colno = rule_ColumnNo q"
      using qanon_iff [of aid colno flag answers rules] by blast
    then show "fst t \<in> set (map arow_AnswerID (tab_rows a)) \<and>
           str_int (fst (snd t)) \<in> set (tab_columns a) \<and>
           \<not> numeric_column (str_int (fst (snd t))) (tab_rows a)"
      using rr unfolding rules_resolve_def list_all_iff te by auto
  qed
  have "(\<lambda>aid col. \<exists>t\<in>set (qanon answers rules). fst t = aid \<and> str_int (fst (snd t)) = col)
      = flagged answers rules"
    by (simp add: fun_eq_iff qanon_flagged)
  then show ?thesis using anonymise_rows_masks [OF d q] by simp
qed

text \<open>
  Claim C5, as the code has it. When, for each of the two answer tables, AnswerID is a key
  of the table, every answer of a questionnaire with a flagged column has a row in it, and
  every such column is a column of the table that holds texts (not only numbers),
  \<^verbatim>\<open>anonAns\<close> raises nothing and writes two tables, \<^verbatim>\<open>answers_blob_anon\<close> and
  \<^verbatim>\<open>answers_char_anon\<close>, whose names are not those of the tables read. Each is its
  answer table with the sentinel in the column named by ColumnNo of every row whose
  AnswerID the table Answers links to the QuestionaireID of a rule with
  \<^verbatim>\<open>anonymise = 1\<close>, and with every other cell as it was. The database is only read:
  the pass returns nothing but the directory of saved tables.
\<close>

theorem anonAns_keyed_tables:
  assumes blob: "rules_resolve (db_Answers db) (csv ''blobQs.csv'') (db_Answers_blob db)"
    and char: "rules_resolve (db_Answers db) (csv ''charQs.csv'') (db_Answers_char db)"
  shows "anonAns db csv dir =
           (None, dir(''answers_blob_anon.feather'' \<mapsto>
                        anonymised_table (db_Answers db) (csv ''blobQs.csv'') (db_Answers_blob db),
                      ''answers_char_anon.feather'' \<mapsto>
                        anonymised_table (db_Answers db) (csv ''charQs.csv'') (db_Answers_char db))) \<and>
         lower ''Answers_blob'' @ ''_anon'' \<noteq> ''Answers_blob'' \<and>
         lower ''Answers_char'' @ ''_anon'' \<noteq> ''Answers_char''"
proof -
  note b = anonymise_table [OF blob]
  note c = anonymise_table [OF char]
  have names: "lower ''Answers_blob'' = ''answers_blob''" "lower ''Answers_char'' = ''answers_char''"
    by code_simp+
  have "anonAns db csv dir =
      (None, dir(''answers_blob_anon.feather'' \<mapsto>
                   anonymised_table (db_Answers db) (csv ''blobQs.csv'') (db_Answers_blob db),
                 ''answers_char_anon.feather'' \<mapsto>
                   anonymised_table (db_Answers db) (csv ''charQs.csv'') (db_Answers_char db)))"
    by (simp add: anonAns_def anstables_def answer_table_def b c saveTables_def names
        fillna_mask_cells)
  moreover have "lower ''Answers_blob'' @ ''_anon'' \<noteq> ''Answers_blob''"
    "lower ''Answers_char'' @ ''_anon'' \<noteq> ''Answers_char''" by (simp_all add: names)
  ultimately show ?thesis by blast
qed

theorem anonAns_keyed_tables_witness:
  "rules_resolve (db_Answers (ex_db no_failure)) (ex_csv ''blobQs.csv'')
     (db_Answers_blob (ex_db no_failure)) \<and>
   rules_resolve (db_Answers (ex_db no_failure)) (ex_csv ''charQs.csv'')
     (db_Answers_char (ex_db no_failure)) \<and>
   anonAns (ex_db no_failure) ex_csv Map.empty =
     (None, [''answers_blob_anon.feather'' \<mapsto>
               anonymised_table (db_Answers (ex_db no_failure)) (ex_csv ''blobQs.csv'')
                 (db_Answers_blob (ex_db no_failure)),
             ''answers_char_anon.feather'' \<mapsto>
               anonymised_table (db_Answers (ex_db no_failure)) (ex_csv ''charQs.csv'')
                 (db_Answers_char (ex_db no_failure))])"
proof -
  have b: "rules_resolve (db_Answers (ex_db no_failure)) (ex_csv ''blobQs.csv'')
     (db_Answers_blob (ex_db no_failure))" by code_simp
  have c: "rules_resolve (db_Answers (ex_db no_failure)) (ex_csv ''charQs.csv'')
     (db_Answers_char (ex_db no_failure))" by code_simp
  show ?thesis using b c anonAns_keyed_tables [OF b c, of Map.empty] by blast
qed

text \<open>
  In the example the name in column 5 of answer 1 and the address in column 3 of answer 2
  are masked, the other cells are kept, and a \<^verbatim>\<open>None\<close> is saved as NaN.
\<close>

lemma anonAns_example:
  "fst (anonAns (ex_db no_failure) ex_csv Map.empty) = None"
  "map_option (column ''5'')
     (snd (anonAns (ex_db no_failure) ex_csv Map.empty) ''answers_blob_anon.feather'')
     = Some [Text ''a'', Text ''yes'']"
  "map_option (column ''6'')
     (snd (anonAns (ex_db no_failure) ex_csv Map.empty) ''answers_blob_anon.feather'')
     = Some [NaN, NaN]"
  "map_option (column ''3'')
     (snd (anonAns (ex_db no_failure) ex_csv Map.empty) ''answers_char_anon.feather'')
     = Some [Text ''x'', Text ''a'']"
  "map_option (column ''4'')
     (snd (anonAns (ex_db no_failure) ex_csv Map.empty) ''answers_char_anon.feather'')
     = Some [Number 3, Number 5]"
  by code_simp+

text \<open>
  The claim as it is stated fails in three ways. When an answer of the flagged
  questionnaire has no row in the answer table (answer 1 in \<open>absent_db\<close>), the unguarded
  \<^verbatim>\<open>index[0]\<close> raises IndexError and nothing is saved, so the row of answer 2, of the
  same questionnaire, is not masked in any saved table. When two rows have the AnswerID of
  such an answer (\<open>twice_db\<close>), only the first is masked. When the flagged column holds
  numbers (\<open>numeric_db\<close>), \<^verbatim>\<open>set_value\<close> raises ValueError and the table is not saved.
\<close>

theorem anonAns_unguarded_counterexample:
  "fst (anonAns absent_db ex_csv Map.empty) = Some IndexError \<and>
   snd (anonAns absent_db ex_csv Map.empty) ''answers_blob_anon.feather'' = None \<and>
   map_option (column ''5'')
     (snd (anonAns twice_db ex_csv Map.empty) ''answers_blob_anon.feather'')
     = Some [Text ''a'', Text ''Sipho''] \<and>
   fst (anonAns numeric_db ex_csv Map.empty) = Some ValueError \<and>
   snd (anonAns numeric_db ex_csv Map.empty) ''answers_char_anon.feather'' = None"
  by code_simp


end
